theory Spec2Isabelle
  imports Main "HOL-Library.Word" "HOL-Library.Sublist"
begin

section \<open>The load-balancer address arithmetic (deploy.go, inc and makeConfig)\<close>

text \<open>
  A \<open>net.IP\<close> is a byte slice. \<open>inc\<close> adds one to the address \<open>cnt\<close> times; one
  addition walks the octets from the last index down to index 0, adds one to the octet
  (a \<open>uint8\<close>, so 255 wraps to 0) and stops at the first octet that did not wrap.

  \<open>inc_carry ip k\<close> is the inner loop with \<open>k = j + 1\<close> octets still to visit: it is
  entered with \<open>k = len(ip)\<close>, so every index it touches is in range.
\<close>

type_synonym byte = "8 word"

fun inc_carry :: "byte list \<Rightarrow> nat \<Rightarrow> byte list" where
  "inc_carry ip 0 = ip"
| "inc_carry ip (Suc j) =
     (let ip' = ip[j := ip ! j + 1]
      in if ip' ! j > 0 then ip' else inc_carry ip' j)"

function inc :: "byte list \<Rightarrow> int \<Rightarrow> byte list" where
  "inc ip cnt = (if cnt > 0 then inc (inc_carry ip (length ip)) (cnt - 1) else ip)"
  by pat_completeness auto
termination
  by (relation "measure (\<lambda>(ip, cnt). nat cnt)") auto

declare inc.simps [simp del]

text \<open>The big-endian value of a byte sequence, octet 0 the most significant.\<close>

definition ipval :: "byte list \<Rightarrow> nat" where
  "ipval ip = foldl (\<lambda>acc b. acc * 256 + unat b) 0 ip"

subsection \<open>The text form of an address\<close>

text \<open>
  \<open>makeConfig\<close> prints its addresses with \<open>%s\<close>, that is with \<open>net.IP.String\<close> of the
  Go standard library, which is not part of the repository. It is modelled here as the
  library documents it: \<open><nil>\<close> for the empty slice, \<open>?\<close> and the hexadecimal octets
  for a slice that has neither 4 nor 16 octets, dotted decimal for an IPv4 address (4
  octets, or 16 octets with the IPv4-in-IPv6 prefix), and for any other 16 octets the
  eight hexadecimal groups with the leftmost longest run of two or more zero groups
  written \<open>::\<close>.
\<close>

definition To4 :: "byte list \<Rightarrow> byte list option" where
  "To4 ip =
     (if length ip = 4 then Some ip
      else if length ip = 16 \<and> take 10 ip = replicate 10 0 \<and> ip ! 10 = 255 \<and> ip ! 11 = 255
      then Some (drop 12 ip)
      else None)"

definition digit :: "nat \<Rightarrow> char" where
  "digit d = ''0123456789abcdef'' ! d"

definition appendDecimal :: "byte \<Rightarrow> string" where
  "appendDecimal x =
     (let n = unat x
      in (if n \<ge> 100 then [digit (n div 100)] else []) @
         (if n \<ge> 10 then [digit (n div 10 mod 10)] else []) @
         [digit (n mod 10)])"

definition appendHex :: "nat \<Rightarrow> string" where
  "appendHex x =
     (if x \<ge> 4096 then [digit (x div 4096 mod 16)] else []) @
     (if x \<ge> 256 then [digit (x div 256 mod 16)] else []) @
     (if x \<ge> 16 then [digit (x div 16 mod 16)] else []) @
     [digit (x mod 16)]"

fun join :: "string \<Rightarrow> string list \<Rightarrow> string" where
  "join sep [] = []"
| "join sep [x] = x"
| "join sep (x # y # ys) = x @ sep @ join sep (y # ys)"

definition hexString :: "byte list \<Rightarrow> string" where
  "hexString ip = concat (map (\<lambda>b. [digit (unat b div 16), digit (unat b mod 16)]) ip)"

fun groups16 :: "byte list \<Rightarrow> nat list" where
  "groups16 (hi # lo # rest) = (unat hi * 256 + unat lo) # groups16 rest"
| "groups16 _ = []"

definition zero_run :: "nat list \<Rightarrow> nat \<times> nat" where
  \<comment> \<open>start and end of the leftmost longest run of at least two zero groups; \<open>(0, 0)\<close> if none\<close>
  "zero_run fs =
     fold (\<lambda>i (zs, ze).
             let l = length (takeWhile (\<lambda>f. f = 0) (drop i fs))
             in if l \<ge> 2 \<and> l > ze - zs then (i, i + l) else (zs, ze))
          [0..<length fs] (0, 0)"

definition string16 :: "byte list \<Rightarrow> string" where
  "string16 ip =
     (let fs = groups16 ip; (zs, ze) = zero_run fs
      in if ze = 0 then join '':'' (map appendHex fs)
         else join '':'' (map appendHex (take zs fs)) @ ''::'' @
              join '':'' (map appendHex (drop ze fs)))"

definition IP_String :: "byte list \<Rightarrow> string" where
  "IP_String ip =
     (if length ip = 0 then ''<nil>''
      else if length ip \<noteq> 4 \<and> length ip \<noteq> 16 then ''?'' @ hexString ip
      else case To4 ip of
             Some p4 \<Rightarrow> join ''.'' (map appendDecimal p4)
           | None \<Rightarrow> string16 ip)"

subsection \<open>The address pool\<close>

record pool =
  Name :: string
  Protocol :: string
  Addresses :: "string list"

record metalLBConfig =
  AddressPools :: "pool list"

text \<open>
  \<open>makeConfig\<close> takes the subnet (only its base address \<open>n.IP\<close> is read) and the pool
  size. Both addresses are fresh copies, so the subnet itself is not changed.
\<close>

definition makeConfig :: "byte list \<Rightarrow> int \<Rightarrow> metalLBConfig" where
  "makeConfig n_IP count =
     (let start = inc n_IP 50;
          end = inc start count
      in \<lparr>AddressPools =
           [\<lparr>Name = ''default'', Protocol = ''layer2'',
             Addresses = [IP_String start @ '' - '' @ IP_String end]\<rparr>]\<rparr>)"

text \<open>The 4-byte address with a given big-endian value.\<close>

definition addr4 :: "nat \<Rightarrow> byte list" where
  "addr4 v = [of_nat (v div 2 ^ 24), of_nat (v div 2 ^ 16), of_nat (v div 2 ^ 8), of_nat v]"

text \<open>
  The range text with both ends computed by integer addition modulo \<open>2 ^ 32\<close>, whatever
  the sign of the count.
\<close>

definition range_by_addition :: "byte list \<Rightarrow> int \<Rightarrow> string" where
  "range_by_addition B count =
     IP_String (addr4 (nat ((int (ipval B) + 50) mod 2 ^ 32))) @ '' - '' @
     IP_String (addr4 (nat ((int (ipval B) + 50 + count) mod 2 ^ 32)))"

lemma ipval_Nil: "ipval [] = 0"
  by (simp add: ipval_def)

lemma ipval_snoc: "ipval (xs @ [x]) = ipval xs * 256 + unat x"
  by (simp add: ipval_def)

lemma ipval_bound: "ipval xs < 256 ^ length xs"
proof (induction xs rule: rev_induct)
  case Nil
  show ?case by (simp add: ipval_Nil)
next
  case (snoc x xs)
  have "unat x < 256" using unsigned_less [of x] by simp
  with snoc show ?case by (simp add: ipval_snoc)
qed

lemma inc_carry_append:
  "inc_carry (pre @ suf) (length pre) = inc_carry pre (length pre) @ suf"
proof (induction pre arbitrary: suf rule: rev_induct)
  case Nil
  show ?case by simp
next
  case (snoc x xs)
  have "inc_carry (xs @ [0]) (length xs) = inc_carry xs (length xs) @ [0]"
    and "inc_carry (xs @ 0 # suf) (length xs) = inc_carry xs (length xs) @ 0 # suf"
    using snoc [of "[0]"] snoc [of "0 # suf"] by simp_all
  then show ?case
    by (simp add: Let_def nth_append list_update_append word_greater_zero_iff)
qed

lemma length_inc_carry: "length (inc_carry ip k) = length ip"
  by (induction ip k rule: inc_carry.induct) (simp_all add: Let_def)

lemma ipval_inc_carry:
  "ipval (inc_carry ip (length ip)) = (ipval ip + 1) mod 256 ^ length ip"
proof (induction ip rule: rev_induct)
  case Nil
  show ?case by (simp add: ipval_Nil)
next
  case (snoc x xs)
  let ?n = "length xs"
  have bx: "unat x < 256" using unsigned_less [of x] by simp
  show ?case
  proof (cases "x + 1 = 0")
    case True
    then have "x = - 1" by (simp add: add_eq_0_iff2)
    then have x255: "unat x = 255"
      by (simp add: unsigned_minus_1_eq_mask mask_eq_exp_minus_1)
    have step: "inc_carry (xs @ [x]) (Suc ?n) = inc_carry xs ?n @ [0]"
      using True inc_carry_append [of xs "[0]"]
      by (simp add: Let_def nth_append list_update_append)
    have "ipval (inc_carry xs ?n @ [0]) = ((ipval xs + 1) mod 256 ^ ?n) * 256"
      by (simp add: ipval_snoc snoc)
    also have "\<dots> = ((ipval xs + 1) * 256) mod (256 ^ ?n * 256)"
      by (simp add: mult_mod_left)
    finally show ?thesis using step x255 by (simp add: ipval_snoc algebra_simps)
  next
    case False
    then have ux: "unat (x + 1) = unat x + 1"
      by (simp add: add.commute unatSuc)
    have "unat (x + 1) < 256"
      using unsigned_less [of "x + 1", where 'a = nat] by simp
    with ux have lt: "unat x + 1 < 256" by simp
    have step: "inc_carry (xs @ [x]) (Suc ?n) = xs @ [x + 1]"
      using False by (simp add: Let_def nth_append list_update_append word_greater_zero_iff)
    have "ipval xs * 256 + unat x + 1 < 256 ^ ?n * 256"
    proof -
      have "ipval xs + 1 \<le> 256 ^ ?n" using ipval_bound [of xs] by simp
      then have "(ipval xs + 1) * 256 \<le> 256 ^ ?n * 256" by (rule mult_le_mono1)
      with lt show ?thesis by simp
    qed
    then show ?thesis using step ux by (simp add: ipval_snoc)
  qed
qed

lemma length_inc: "length (inc ip cnt) = length ip"
proof (induction ip cnt rule: inc.induct)
  case (1 ip cnt)
  then show ?case by (subst inc.simps) (simp add: length_inc_carry)
qed

lemma ipval_inc:
  "0 \<le> cnt \<Longrightarrow> ipval (inc ip cnt) = (ipval ip + nat cnt) mod 256 ^ length ip"
proof (induction ip cnt rule: inc.induct)
  case (1 ip cnt)
  show ?case
  proof (cases "cnt > 0")
    case True
    let ?ip' = "inc_carry ip (length ip)"
    have "ipval (inc ip cnt) = ipval (inc ?ip' (cnt - 1))"
      using True by (subst inc.simps) simp
    also have "\<dots> = (ipval ?ip' + nat (cnt - 1)) mod 256 ^ length ip"
      using "1.IH" [OF True] True by (simp add: length_inc_carry)
    also have "\<dots> = ((ipval ip + 1) mod 256 ^ length ip + nat (cnt - 1)) mod 256 ^ length ip"
      by (simp add: ipval_inc_carry)
    also have "\<dots> = (ipval ip + 1 + nat (cnt - 1)) mod 256 ^ length ip"
      by (simp add: mod_add_left_eq)
    also have "ipval ip + 1 + nat (cnt - 1) = ipval ip + nat cnt"
      using True by simp
    finally show ?thesis .
  next
    case False
    with "1.prems" have "cnt = 0" by simp
    then show ?thesis
      using ipval_bound [of ip] by (subst inc.simps) simp
  qed
qed

lemma inc_nonpositive: "cnt \<le> 0 \<Longrightarrow> inc ip cnt = ip"
  by (subst inc.simps) simp

text \<open>
  C3: for a 4-byte address \<open>A\<close> and a count \<open>N \<ge> 0\<close>, \<open>inc\<close> leaves a 4-byte
  address whose big-endian value is the value of \<open>A\<close> plus \<open>N\<close> modulo \<open>2 ^ 32\<close>.
\<close>

theorem inc_adds_mod_2_32:
  "length A = 4 \<Longrightarrow> 0 \<le> N \<Longrightarrow>
     length (inc A N) = 4 \<and> ipval (inc A N) = (ipval A + nat N) mod 2 ^ 32"
  using ipval_inc [of N A] by (simp add: length_inc)

theorem inc_adds_mod_2_32_witness:
  "length [255, 255, 255, 254 :: byte] = 4 \<and> (0::int) \<le> 3 \<and>
   length (inc [255, 255, 255, 254] 3) = 4 \<and>
   ipval (inc [255, 255, 255, 254] 3) = (ipval [255, 255, 255, 254] + nat 3) mod 2 ^ 32"
  using inc_adds_mod_2_32 [of "[255, 255, 255, 254]" 3] by simp

subsection \<open>The pool computed by makeConfig\<close>

lemma len4: "length A = 4 \<Longrightarrow> \<exists>a b c d. A = [a, b, c, d]"
  by (cases A; simp; cases "tl A"; simp; cases "tl (tl A)"; simp; cases "tl (tl (tl A))"; simp)

lemma div_step: "y < 256 \<Longrightarrow> (x * 256 + y) div 256 = (x::nat)"
  by simp

lemma addr4_ipval: "length A = 4 \<Longrightarrow> addr4 (ipval A) = A"
proof -
  assume "length A = 4"
  then obtain a b c d where A: "A = [a, b, c, d]"
    using len4 by blast
  have ba: "unat a < 256" and bb: "unat b < 256" and bc: "unat c < 256" and bd: "unat d < 256"
    using unsigned_less [of a, where 'a = nat] unsigned_less [of b, where 'a = nat]
      unsigned_less [of c, where 'a = nat] unsigned_less [of d, where 'a = nat] by simp_all
  define v1 where "v1 = unat a * 256 + unat b"
  define v2 where "v2 = v1 * 256 + unat c"
  have v: "ipval A = v2 * 256 + unat d"
    by (simp add: A ipval_def v1_def v2_def)
  have d1: "ipval A div 256 = v2"
    unfolding v using bd by (rule div_step)
  have d2: "ipval A div 256 div 256 = v1"
    unfolding d1 v2_def using bc by (rule div_step)
  have d3: "ipval A div 256 div 256 div 256 = unat a"
    unfolding d2 v1_def using bb by (rule div_step)
  have e: "(2::nat) ^ 8 = 256" "(2::nat) ^ 16 = 256 * 256" "(2::nat) ^ 24 = 256 * 256 * 256"
    by simp_all
  have z: "(256 :: byte) = 0" by simp
  have f1: "ipval A div 2 ^ 8 = v2" using d1 by (simp only: e)
  have f2: "ipval A div 2 ^ 16 = v1" using d2 by (simp only: e div_mult2_eq)
  have f3: "ipval A div 2 ^ 24 = unat a" using d3 by (simp only: e div_mult2_eq)
  have z2: "(65536 :: byte) = 0" by simp
  have c1: "(of_nat v1 :: byte) = b" by (simp add: v1_def z)
  have c2: "(of_nat v2 :: byte) = c" by (simp add: v2_def z)
  have c3: "(of_nat (ipval A) :: byte) = d" unfolding v by (simp add: z)
  show ?thesis
    unfolding addr4_def f1 f2 f3 c1 c2 c3 by (simp add: A)
qed
lemma nat_int_mod: "0 \<le> c \<Longrightarrow> nat ((int v + 50 + c) mod 2 ^ 32) = (v + 50 + nat c) mod 2 ^ 32"
proof -
  assume "0 \<le> c"
  then have "int v + 50 + c = int (v + 50 + nat c)" by simp
  then have "(int v + 50 + c) mod 2 ^ 32 = int ((v + 50 + nat c) mod 2 ^ 32)"
    by (simp only: zmod_int) simp
  then show ?thesis by simp
qed

lemma inc_as_addr4:
  assumes "length A = 4" and "0 \<le> N"
  shows "inc A N = addr4 ((ipval A + nat N) mod 2 ^ 32)"
proof -
  have "length (inc A N) = 4" using assms by (simp add: length_inc)
  then have "addr4 (ipval (inc A N)) = inc A N" by (rule addr4_ipval)
  then show ?thesis using assms ipval_inc [of N A] by simp
qed

lemma makeConfig_addresses:
  assumes "length B = 4"
  shows "makeConfig B count =
     \<lparr>AddressPools = [\<lparr>Name = ''default'', Protocol = ''layer2'',
                        Addresses = [range_by_addition B (max 0 count)]\<rparr>]\<rparr>"
proof -
  let ?s = "(ipval B + 50) mod 2 ^ 32"
  have start: "inc B 50 = addr4 ?s"
    using inc_as_addr4 [OF assms, of 50] by simp
  have ls: "length (inc B 50) = 4" using assms by (simp add: length_inc)
  have "inc (inc B 50) count = addr4 ((ipval B + 50 + nat (max 0 count)) mod 2 ^ 32)"
  proof (cases "0 \<le> count")
    case True
    have "ipval (inc B 50) = ?s" using ipval_inc [of 50 B] assms by simp
    then have "inc (inc B 50) count = addr4 ((?s + nat count) mod 2 ^ 32)"
      using inc_as_addr4 [OF ls True] by simp
    then show ?thesis using True by (simp add: mod_add_left_eq max_def)
  next
    case False
    then show ?thesis using start by (simp add: inc_nonpositive max_def)
  qed
  moreover have "nat ((int (ipval B) + 50) mod 2 ^ 32) = ?s"
    using nat_int_mod [of 0 "ipval B"] by simp
  moreover have "nat ((int (ipval B) + 50 + max 0 count) mod 2 ^ 32)
      = (ipval B + 50 + nat (max 0 count)) mod 2 ^ 32"
    by (rule nat_int_mod) simp
  ultimately show ?thesis
    by (simp only: makeConfig_def Let_def range_by_addition_def start)
qed

lemma makeConfig_kind_subnet:
  "makeConfig [172, 18, 0, 0] 10 =
       \<lparr>AddressPools = [\<lparr>Name = ''default'', Protocol = ''layer2'',
                          Addresses = [''172.18.0.50 - 172.18.0.60'']\<rparr>]\<rparr>"
  by (simp add: makeConfig_def inc.simps Let_def IP_String_def To4_def appendDecimal_def
      digit_def)

text \<open>
  C4 (as amended): for a 4-byte subnet base \<open>B\<close>, \<open>makeConfig\<close> yields the single pool
  \<open>default\<close> / \<open>layer2\<close> whose one range runs from \<open>B + 50\<close> to
  \<open>B + 50 + max 0 count\<close> (both modulo \<open>2 ^ 32\<close>): a count that is not positive adds
  nothing, because \<open>inc\<close> only loops while its count is positive. On 172.18.0.0 with
  count 10 the range text is \<open>172.18.0.50 - 172.18.0.60\<close>.
\<close>

theorem makeConfig_range:
  "length B = 4 \<Longrightarrow>
     makeConfig B count =
       \<lparr>AddressPools = [\<lparr>Name = ''default'', Protocol = ''layer2'',
                          Addresses = [range_by_addition B (max 0 count)]\<rparr>]\<rparr> \<and>
     makeConfig [172, 18, 0, 0] 10 =
       \<lparr>AddressPools = [\<lparr>Name = ''default'', Protocol = ''layer2'',
                          Addresses = [''172.18.0.50 - 172.18.0.60'']\<rparr>]\<rparr>"
proof -
  assume len: "length B = 4"
  from makeConfig_addresses [OF len] makeConfig_kind_subnet show ?thesis by simp
qed

theorem makeConfig_range_witness:
  "length [10, 0, 0, 250 :: byte] = 4 \<and>
   makeConfig [10, 0, 0, 250] 3 =
     \<lparr>AddressPools = [\<lparr>Name = ''default'', Protocol = ''layer2'',
                        Addresses = [''10.0.1.44 - 10.0.1.47'']\<rparr>]\<rparr> \<and>
   makeConfig [10, 0, 0, 250] (- 4) =
     \<lparr>AddressPools = [\<lparr>Name = ''default'', Protocol = ''layer2'',
                        Addresses = [''10.0.1.44 - 10.0.1.44'']\<rparr>]\<rparr>"
  using makeConfig_range [of "[10, 0, 0, 250]" 3] makeConfig_range [of "[10, 0, 0, 250]" "- 4"]
  by (simp add: range_by_addition_def ipval_def addr4_def IP_String_def To4_def
      appendDecimal_def digit_def)

text \<open>
  The claim as written, with the end at \<open>B + 50 + count\<close> for every count, fails for a
  negative count: on 172.18.0.0 with count \<open>-1\<close> the range ends at 172.18.0.50, not at
  172.18.0.49.
\<close>

theorem makeConfig_range_counterexample:
  "\<not> (\<forall>B count. length B = 4 \<longrightarrow>
        makeConfig B count =
          \<lparr>AddressPools = [\<lparr>Name = ''default'', Protocol = ''layer2'',
                             Addresses = [range_by_addition B count]\<rparr>]\<rparr>)"
proof
  assume "\<forall>B count. length B = 4 \<longrightarrow>
        makeConfig B count =
          \<lparr>AddressPools = [\<lparr>Name = ''default'', Protocol = ''layer2'',
                             Addresses = [range_by_addition B count]\<rparr>]\<rparr>"
  then have "makeConfig [172, 18, 0, 0] (- 1) =
          \<lparr>AddressPools = [\<lparr>Name = ''default'', Protocol = ''layer2'',
                             Addresses = [range_by_addition [172, 18, 0, 0] (- 1)]\<rparr>]\<rparr>"
    by simp
  moreover have "range_by_addition [172, 18, 0, 0] (- 1) = ''172.18.0.50 - 172.18.0.49''"
    by (simp add: range_by_addition_def ipval_def addr4_def IP_String_def To4_def
        appendDecimal_def digit_def)
  moreover have "makeConfig [172, 18, 0, 0] (- 1) =
          \<lparr>AddressPools = [\<lparr>Name = ''default'', Protocol = ''layer2'',
                             Addresses = [''172.18.0.50 - 172.18.0.50'']\<rparr>]\<rparr>"
    by (simp add: makeConfig_def inc.simps Let_def IP_String_def To4_def appendDecimal_def
        digit_def)
  ultimately show False by simp
qed

section \<open>Errors\<close>

text \<open>
  A Go \<open>error\<close> is modelled by how it was made: \<open>Error\<close> for a message
  (\<open>fmt.Errorf\<close> without \<open>%w\<close>, or an error handed back by an external call),
  \<open>Wrap\<close> for \<open>fmt.Errorf("<prefix>%w", err)\<close>, and \<open>ErrorList\<close> for the error that
  \<open>errlist.List.Err\<close> builds from the errors added to the list. A function returning
  \<open>error\<close> returns \<open>error option\<close>, \<open>None\<close> being \<open>nil\<close>.

  \<open>errlist\<close> (openconfig/gnmi) is not part of the repository; as it documents,
  \<open>Err\<close> is \<open>nil\<close> for an empty list and the message of a list joins the messages of
  its errors with \<open>", "\<close>.
\<close>

datatype error = Error string | Wrap string error | ErrorList "error list"

fun error_message :: "error \<Rightarrow> string" where
  "error_message (Error s) = s"
| "error_message (Wrap pfx e) = pfx @ error_message e"
| "error_message (ErrorList es) = join '', '' (map error_message es)"

definition Err :: "error list \<Rightarrow> error option" where
  "Err errs = (if errs = [] then None else Some (ErrorList errs))"

text \<open>
  \<open>%q\<close> of a string is \<open>strconv.Quote\<close>: the string between double quotes, with a
  backslash before a double quote or a backslash, printable ASCII as it is, the control
  characters that have a letter escape written with it and the other ASCII control
  characters as a backslash, \<open>x\<close> and two hexadecimal digits. A byte from \<open>0x80\<close> on is copied, as Go
  copies the UTF-8 encoding of a printable character; which characters beyond ASCII Go
  holds to be printable is not modelled.
\<close>

definition quote_char :: "char \<Rightarrow> string" where
  "quote_char c =
     (let n = (of_char c :: nat)
      in if c = CHR 0x22 \<or> c = CHR 0x5C then [CHR 0x5C, c]
         else if 32 \<le> n \<and> n \<le> 126 then [c]
         else if n = 7 then [CHR 0x5C, CHR ''a'']
         else if n = 8 then [CHR 0x5C, CHR ''b'']
         else if n = 12 then [CHR 0x5C, CHR ''f'']
         else if n = 10 then [CHR 0x5C, CHR ''n'']
         else if n = 13 then [CHR 0x5C, CHR ''r'']
         else if n = 9 then [CHR 0x5C, CHR ''t'']
         else if n = 11 then [CHR 0x5C, CHR ''v'']
         else if n < 32 \<or> n = 127 then [CHR 0x5C, CHR ''x'', digit (n div 16), digit (n mod 16)]
         else [c])"

definition quote :: "string \<Rightarrow> string" where
  "quote s = [CHR 0x22] @ concat (map quote_char s) @ [CHR 0x22]"

section \<open>The dependency checks\<close>

text \<open>
  \<open>execLookPath\<close> is a package variable (\<open>exec.LookPath\<close>, replaced in tests): the
  model takes it as the function \<open>look\<close>, which returns the error of the lookup.
  \<open>check_bins\<close> is the loop over the binaries with the list \<open>errs\<close> built so far.
\<close>

definition missing_dependency :: "string \<Rightarrow> error" where
  "missing_dependency bin = Error (''install dependency '' @ quote bin @ '' to deploy'')"

fun check_bins :: "(string \<Rightarrow> error option) \<Rightarrow> string list \<Rightarrow> error list \<Rightarrow> error list" where
  "check_bins look [] errs = errs"
| "check_bins look (bin # bins) errs =
     check_bins look bins
       (case look bin of
          Some err \<Rightarrow> errs @ [missing_dependency bin]
        | None \<Rightarrow> errs)"

definition Deployment_checkDependencies :: "(string \<Rightarrow> error option) \<Rightarrow> error option" where
  "Deployment_checkDependencies look = Err (check_bins look [''docker'', ''kubectl''] [])"

record KindSpec =
  Name :: string
  Recycle :: bool
  Version :: string
  Image :: string
  Retain :: bool
  Wait :: int
  Kubecfg :: string
  GoogleArtifactRegistries :: "string list"
  ContainerImages :: "(string \<times> string) list"
  KindConfigFile :: string
  AdditionalManifests :: "string list"

definition KindSpec_checkDependencies :: "KindSpec \<Rightarrow> (string \<Rightarrow> error option) \<Rightarrow> error option" where
  "KindSpec_checkDependencies k look =
     (let bins = [''kind''];
          bins = (if length (GoogleArtifactRegistries k) \<noteq> 0 then bins @ [''gcloud''] else bins)
      in Err (check_bins look bins []))"

lemma check_bins_filter:
  "check_bins look bins errs =
     errs @ map missing_dependency (filter (\<lambda>bin. look bin \<noteq> None) bins)"
  by (induction bins arbitrary: errs) (auto split: option.splits)

text \<open>
  C7: each dependency check returns \<open>nil\<close> when nothing is missing and otherwise one
  error that lists, in order, an error for every missing binary of its list. The error
  for a binary is \<open>install dependency "<binary>" to deploy\<close>. With docker and kubectl
  both missing, the check of \<open>Deployment\<close> returns the one error whose message is
  \<open>install dependency "docker" to deploy, install dependency "kubectl" to deploy\<close>.
\<close>

theorem checkDependencies_collects_all:
  "Deployment_checkDependencies look =
     Err (map missing_dependency (filter (\<lambda>bin. look bin \<noteq> None) [''docker'', ''kubectl''])) \<and>
   KindSpec_checkDependencies k look =
     Err (map missing_dependency (filter (\<lambda>bin. look bin \<noteq> None)
       (if GoogleArtifactRegistries k = [] then [''kind''] else [''kind'', ''gcloud'']))) \<and>
   map missing_dependency [''docker'', ''kubectl'', ''kind'', ''gcloud''] =
     [Error (''install dependency '' @ [CHR 0x22] @ ''docker'' @ [CHR 0x22] @ '' to deploy''),
      Error (''install dependency '' @ [CHR 0x22] @ ''kubectl'' @ [CHR 0x22] @ '' to deploy''),
      Error (''install dependency '' @ [CHR 0x22] @ ''kind'' @ [CHR 0x22] @ '' to deploy''),
      Error (''install dependency '' @ [CHR 0x22] @ ''gcloud'' @ [CHR 0x22] @ '' to deploy'')] \<and>
   (look ''docker'' \<noteq> None \<and> look ''kubectl'' \<noteq> None \<longrightarrow>
      Deployment_checkDependencies look =
        Some (ErrorList
          [Error (''install dependency '' @ [CHR 0x22] @ ''docker'' @ [CHR 0x22] @ '' to deploy''),
           Error (''install dependency '' @ [CHR 0x22] @ ''kubectl'' @ [CHR 0x22] @ '' to deploy'')]) \<and>
      map_option error_message (Deployment_checkDependencies look) =
        Some (''install dependency '' @ [CHR 0x22] @ ''docker'' @ [CHR 0x22] @ '' to deploy, '' @
              ''install dependency '' @ [CHR 0x22] @ ''kubectl'' @ [CHR 0x22] @ '' to deploy''))"
  by (simp add: Deployment_checkDependencies_def KindSpec_checkDependencies_def
      check_bins_filter Err_def missing_dependency_def Let_def quote_def quote_char_def)

theorem checkDependencies_collects_all_witness:
  "(\<lambda>bin. Some (Error ''not found'')) ''docker'' \<noteq> None \<and>
   (\<lambda>bin. Some (Error ''not found'')) ''kubectl'' \<noteq> None \<and>
   Deployment_checkDependencies (\<lambda>bin. Some (Error ''not found'')) =
     Some (ErrorList
       [Error (''install dependency '' @ [CHR 0x22] @ ''docker'' @ [CHR 0x22] @ '' to deploy''),
        Error (''install dependency '' @ [CHR 0x22] @ ''kubectl'' @ [CHR 0x22] @ '' to deploy'')]) \<and>
   map_option error_message (Deployment_checkDependencies (\<lambda>bin. Some (Error ''not found''))) =
     Some (''install dependency '' @ [CHR 0x22] @ ''docker'' @ [CHR 0x22] @ '' to deploy, '' @
           ''install dependency '' @ [CHR 0x22] @ ''kubectl'' @ [CHR 0x22] @ '' to deploy'') \<and>
   Deployment_checkDependencies (\<lambda>bin. if bin = ''kubectl'' then Some (Error ''not found'') else None) =
     Some (ErrorList
       [Error (''install dependency '' @ [CHR 0x22] @ ''kubectl'' @ [CHR 0x22] @ '' to deploy'')]) \<and>
   Deployment_checkDependencies (\<lambda>bin. None) = None"
  using checkDependencies_collects_all [of "\<lambda>bin. Some (Error ''not found'')"]
    checkDependencies_collects_all
      [of "\<lambda>bin. if bin = ''kubectl'' then Some (Error ''not found'') else None"]
    checkDependencies_collects_all [of "\<lambda>bin. None"]
  by (simp add: Err_def)

section \<open>The health watches\<close>

text \<open>
  Both watches open a watch and then loop over a \<open>select\<close> with two cases: the context
  is done, or the result channel delivers (an event, or its closing). The model is given
  what the environment decides: the result of opening the watch (\<open>Inl\<close> its error), and
  for an open watch the list of the cases the successive \<open>select\<close>s take, in order.
  When that list is used up and nothing made the loop return, the loop is waiting in
  \<open>select\<close>: the run is \<open>Blocks\<close>. An event carries its type, which the code never
  reads, and its object; only the fields of the objects that the code reads are kept.
\<close>

type_synonym int32 = "32 word"

record appsv1_Deployment =
  Spec_Replicas :: "int32 option"
  Status_Replicas :: int32
  Status_UpdatedReplicas :: int32
  Status_ReadyReplicas :: int32
  Status_AvailableReplicas :: int32
  Status_UnavailableReplicas :: int32

record appsv1_DaemonSet =
  Status_NumberReady :: int32
  Status_DesiredNumberScheduled :: int32
  Status_NumberUnavailable :: int32

datatype object = DeploymentObj appsv1_Deployment | DaemonSetObj appsv1_DaemonSet | OtherObj string

datatype event_type = Added | Modified | Deleted | Bookmark | ErrorEvent

datatype select_case = CtxDone | ChanClosed | Event event_type object

datatype 'a run = Blocks | Returns 'a

text \<open>
  \<open>deploymentHealthy\<close>: the message of the type mismatch prints \<open>%T\<close> of the variable
  \<open>d\<close>, whose static type is \<open>*appsv1.Deployment\<close> whatever object arrived.
\<close>

fun deploymentHealthy_loop :: "select_case list \<Rightarrow> error option run" where
  "deploymentHealthy_loop [] = Blocks"
| "deploymentHealthy_loop (CtxDone # rest) =
     Returns (Some (Error ''context canceled before healthy''))"
| "deploymentHealthy_loop (ChanClosed # rest) =
     Returns (Some (Error ''watch channel closed before healthy''))"
| "deploymentHealthy_loop (Event t obj # rest) =
     (case obj of
        DeploymentObj d \<Rightarrow>
          (let r = (case Spec_Replicas d of Some v \<Rightarrow> v | None \<Rightarrow> 1)
           in if Status_AvailableReplicas d = r \<and>
                 Status_ReadyReplicas d = r \<and>
                 Status_UnavailableReplicas d = 0 \<and>
                 Status_Replicas d = r \<and>
                 Status_UpdatedReplicas d = r
              then Returns None
              else deploymentHealthy_loop rest)
      | _ \<Rightarrow> Returns (Some (Error (''invalid object type: '' @ ''*v1.Deployment''))))"

definition deploymentHealthy :: "error + select_case list \<Rightarrow> error option run" where
  "deploymentHealthy w =
     (case w of
        Inl err \<Rightarrow> Returns (Some err)
      | Inr ch \<Rightarrow> deploymentHealthy_loop ch)"

text \<open>
  The readiness the specification describes: the desired replica count is the spec'd
  one, 1 when there is none; all four replica counts equal it and none is unavailable.
\<close>

definition desired_replicas :: "appsv1_Deployment \<Rightarrow> int32" where
  "desired_replicas d = (case Spec_Replicas d of None \<Rightarrow> 1 | Some r \<Rightarrow> r)"

definition deployment_ready :: "appsv1_Deployment \<Rightarrow> bool" where
  "deployment_ready d \<longleftrightarrow>
     Status_AvailableReplicas d = desired_replicas d \<and>
     Status_ReadyReplicas d = desired_replicas d \<and>
     Status_Replicas d = desired_replicas d \<and>
     Status_UpdatedReplicas d = desired_replicas d \<and>
     Status_UnavailableReplicas d = 0"

fun unready_deployment :: "select_case \<Rightarrow> bool" where
  "unready_deployment (Event t (DeploymentObj d)) = (\<not> deployment_ready d)"
| "unready_deployment _ = False"

lemma deploymentHealthy_loop_skip:
  "list_all unready_deployment pre \<Longrightarrow>
     deploymentHealthy_loop (pre @ rest) = deploymentHealthy_loop rest"
proof (induction pre)
  case Nil
  show ?case by simp
next
  case (Cons x pre)
  then show ?case
    by (cases x rule: unready_deployment.cases)
       (auto simp: deployment_ready_def desired_replicas_def Let_def split: option.splits)
qed

lemma deploymentHealthy_loop_success:
  "deploymentHealthy_loop ch = Returns None \<Longrightarrow>
     \<exists>pre t d rest. ch = pre @ Event t (DeploymentObj d) # rest \<and>
        list_all unready_deployment pre \<and> deployment_ready d"
proof (induction ch rule: deploymentHealthy_loop.induct)
  case 1
  then show ?case by simp
next
  case (2 rest)
  then show ?case by simp
next
  case (3 rest)
  then show ?case by simp
next
  case (4 t obj rest)
  show ?case
  proof (cases obj)
    case (DeploymentObj d)
    show ?thesis
    proof (cases "deployment_ready d")
      case True
      then have "Event t obj # rest = [] @ Event t (DeploymentObj d) # rest \<and>
          list_all unready_deployment [] \<and> deployment_ready d"
        using DeploymentObj by simp
      then show ?thesis by blast
    next
      case False
      then have "deploymentHealthy_loop rest = Returns None"
        using "4.prems" DeploymentObj
        by (auto simp: deployment_ready_def desired_replicas_def Let_def
            split: option.splits if_splits)
      moreover have "\<not> (Status_AvailableReplicas d = (case Spec_Replicas d of Some v \<Rightarrow> v | None \<Rightarrow> 1) \<and>
                 Status_ReadyReplicas d = (case Spec_Replicas d of Some v \<Rightarrow> v | None \<Rightarrow> 1) \<and>
                 Status_UnavailableReplicas d = 0 \<and>
                 Status_Replicas d = (case Spec_Replicas d of Some v \<Rightarrow> v | None \<Rightarrow> 1) \<and>
                 Status_UpdatedReplicas d = (case Spec_Replicas d of Some v \<Rightarrow> v | None \<Rightarrow> 1))"
        using False by (auto simp: deployment_ready_def desired_replicas_def split: option.splits)
      ultimately obtain pre t' d' rest' where
        "rest = pre @ Event t' (DeploymentObj d') # rest'" "list_all unready_deployment pre"
        "deployment_ready d'"
        using "4.IH" [OF DeploymentObj refl] by blast
      then have "Event t obj # rest = (Event t obj # pre) @ Event t' (DeploymentObj d') # rest' \<and>
          list_all unready_deployment (Event t obj # pre) \<and> deployment_ready d'"
        using False DeploymentObj by simp
      then show ?thesis by blast
    qed
  next
    case (DaemonSetObj x)
    then show ?thesis using "4.prems" by simp
  next
    case (OtherObj x)
    then show ?thesis using "4.prems" by simp
  qed
qed

text \<open>
  C1: the generic deployment watch returns success exactly when some event carries a
  ready deployment and everything before it was an event with a deployment that is not
  ready. After such events only, a done context returns the cancellation error, a closed
  channel the stream-closed error, an object that is not a deployment the type-mismatch
  error, and with nothing more delivered the watch is still waiting. The three errors
  differ. A watch that cannot be opened returns the error of the opening.
\<close>

theorem deploymentHealthy_first_ready_event:
  "(deploymentHealthy w = Returns None \<longleftrightarrow>
      (\<exists>pre t d rest. w = Inr (pre @ Event t (DeploymentObj d) # rest) \<and>
         list_all unready_deployment pre \<and> deployment_ready d)) \<and>
   (list_all unready_deployment pre \<longrightarrow>
      deploymentHealthy (Inr (pre @ CtxDone # rest)) =
        Returns (Some (Error ''context canceled before healthy'')) \<and>
      deploymentHealthy (Inr (pre @ ChanClosed # rest)) =
        Returns (Some (Error ''watch channel closed before healthy'')) \<and>
      (\<forall>t obj. (\<forall>d. obj \<noteq> DeploymentObj d) \<longrightarrow>
         deploymentHealthy (Inr (pre @ Event t obj # rest)) =
           Returns (Some (Error ''invalid object type: *v1.Deployment''))) \<and>
      deploymentHealthy (Inr pre) = Blocks) \<and>
   distinct [Error ''context canceled before healthy'',
             Error ''watch channel closed before healthy'',
             Error ''invalid object type: *v1.Deployment''] \<and>
   deploymentHealthy (Inl err) = Returns (Some err)"
proof -
  have success: "deploymentHealthy w = Returns None \<longleftrightarrow>
      (\<exists>pre t d rest. w = Inr (pre @ Event t (DeploymentObj d) # rest) \<and>
         list_all unready_deployment pre \<and> deployment_ready d)"
  proof
    assume r: "deploymentHealthy w = Returns None"
    then obtain ch where w: "w = Inr ch"
      by (cases w) (simp_all add: deploymentHealthy_def)
    with r have "deploymentHealthy_loop ch = Returns None"
      by (simp add: deploymentHealthy_def)
    from deploymentHealthy_loop_success [OF this] w
    show "\<exists>pre t d rest. w = Inr (pre @ Event t (DeploymentObj d) # rest) \<and>
         list_all unready_deployment pre \<and> deployment_ready d"
      by blast
  next
    assume "\<exists>pre t d rest. w = Inr (pre @ Event t (DeploymentObj d) # rest) \<and>
         list_all unready_deployment pre \<and> deployment_ready d"
    then obtain pre t d rest where w: "w = Inr (pre @ Event t (DeploymentObj d) # rest)"
      and pre: "list_all unready_deployment pre" and d: "deployment_ready d"
      by blast
    from d have "deploymentHealthy_loop (Event t (DeploymentObj d) # rest) = Returns None"
      by (simp add: deployment_ready_def desired_replicas_def Let_def split: option.splits)
    then show "deploymentHealthy w = Returns None"
      by (simp add: w deploymentHealthy_def deploymentHealthy_loop_skip [OF pre])
  qed
  have failures: "deploymentHealthy (Inr (pre @ CtxDone # rest)) =
        Returns (Some (Error ''context canceled before healthy'')) \<and>
      deploymentHealthy (Inr (pre @ ChanClosed # rest)) =
        Returns (Some (Error ''watch channel closed before healthy'')) \<and>
      (\<forall>t obj. (\<forall>d. obj \<noteq> DeploymentObj d) \<longrightarrow>
         deploymentHealthy (Inr (pre @ Event t obj # rest)) =
           Returns (Some (Error ''invalid object type: *v1.Deployment''))) \<and>
      deploymentHealthy (Inr pre) = Blocks"
    if pre: "list_all unready_deployment pre"
  proof -
    have "deploymentHealthy_loop (pre @ Event t obj # rest) =
        Returns (Some (Error ''invalid object type: *v1.Deployment''))"
      if "\<forall>d. obj \<noteq> DeploymentObj d" for t obj
      using that by (cases obj) (simp_all add: deploymentHealthy_loop_skip [OF pre])
    moreover have "deploymentHealthy_loop pre = Blocks"
      using deploymentHealthy_loop_skip [OF pre, of "[]"] by simp
    ultimately show ?thesis
      by (simp add: deploymentHealthy_def deploymentHealthy_loop_skip [OF pre])
  qed
  have "deploymentHealthy (Inl err) = Returns (Some err)"
    by (simp add: deploymentHealthy_def)
  with success failures show ?thesis by simp
qed

theorem deploymentHealthy_first_ready_event_witness:
  "list_all unready_deployment
     [Event Added (DeploymentObj \<lparr>Spec_Replicas = None, Status_Replicas = 1,
        Status_UpdatedReplicas = 1, Status_ReadyReplicas = 0, Status_AvailableReplicas = 0,
        Status_UnavailableReplicas = 1\<rparr>)] \<and>
   deploymentHealthy (Inr
     [Event Added (DeploymentObj \<lparr>Spec_Replicas = None, Status_Replicas = 1,
        Status_UpdatedReplicas = 1, Status_ReadyReplicas = 0, Status_AvailableReplicas = 0,
        Status_UnavailableReplicas = 1\<rparr>),
      CtxDone]) = Returns (Some (Error ''context canceled before healthy'')) \<and>
   deploymentHealthy (Inr
     [Event Added (DeploymentObj \<lparr>Spec_Replicas = None, Status_Replicas = 1,
        Status_UpdatedReplicas = 1, Status_ReadyReplicas = 0, Status_AvailableReplicas = 0,
        Status_UnavailableReplicas = 1\<rparr>),
      Event ErrorEvent (OtherObj ''*v1.Status'')]) =
     Returns (Some (Error ''invalid object type: *v1.Deployment'')) \<and>
   deploymentHealthy (Inr
     [Event Added (DeploymentObj \<lparr>Spec_Replicas = None, Status_Replicas = 1,
        Status_UpdatedReplicas = 1, Status_ReadyReplicas = 0, Status_AvailableReplicas = 0,
        Status_UnavailableReplicas = 1\<rparr>)]) = Blocks"
  using deploymentHealthy_first_ready_event
    [where pre = "[Event Added (DeploymentObj \<lparr>Spec_Replicas = None, Status_Replicas = 1,
        Status_UpdatedReplicas = 1, Status_ReadyReplicas = 0, Status_AvailableReplicas = 0,
        Status_UnavailableReplicas = 1\<rparr>)]" and rest = "[]" and w = "Inr []"]
  by (simp add: deployment_ready_def desired_replicas_def)

subsection \<open>The Meshnet daemon-set watch\<close>

text \<open>
  \<open>MeshnetSpec.Healthy\<close> reads of its receiver only the cluster handle, on which it
  opens the watch of the daemon-set named \<open>meshnet\<close>; the model takes what that watch
  gives.
\<close>

fun MeshnetSpec_Healthy_loop :: "select_case list \<Rightarrow> error option run" where
  "MeshnetSpec_Healthy_loop [] = Blocks"
| "MeshnetSpec_Healthy_loop (CtxDone # rest) =
     Returns (Some (Error ''context canceled before healthy''))"
| "MeshnetSpec_Healthy_loop (ChanClosed # rest) =
     Returns (Some (Error ''watch channel closed before healthy''))"
| "MeshnetSpec_Healthy_loop (Event t obj # rest) =
     (case obj of
        DaemonSetObj d \<Rightarrow>
          (if Status_NumberReady d = Status_DesiredNumberScheduled d \<and>
              Status_NumberUnavailable d = 0
           then Returns None
           else MeshnetSpec_Healthy_loop rest)
      | _ \<Rightarrow> Returns (Some (Error (''invalid object type: '' @ ''*v1.DaemonSet''))))"

definition MeshnetSpec_Healthy :: "error + select_case list \<Rightarrow> error option run" where
  "MeshnetSpec_Healthy w =
     (case w of
        Inl err \<Rightarrow> Returns (Some err)
      | Inr ch \<Rightarrow> MeshnetSpec_Healthy_loop ch)"

definition daemonset_ready :: "appsv1_DaemonSet \<Rightarrow> bool" where
  "daemonset_ready d \<longleftrightarrow>
     Status_NumberReady d = Status_DesiredNumberScheduled d \<and> Status_NumberUnavailable d = 0"

fun unready_daemonset :: "select_case \<Rightarrow> bool" where
  "unready_daemonset (Event t (DaemonSetObj d)) = (\<not> daemonset_ready d)"
| "unready_daemonset _ = False"

lemma MeshnetSpec_Healthy_loop_skip:
  "list_all unready_daemonset pre \<Longrightarrow>
     MeshnetSpec_Healthy_loop (pre @ rest) = MeshnetSpec_Healthy_loop rest"
proof (induction pre)
  case Nil
  show ?case by simp
next
  case (Cons x pre)
  then show ?case
    by (cases x rule: unready_daemonset.cases) (auto simp: daemonset_ready_def)
qed

lemma MeshnetSpec_Healthy_loop_success:
  "MeshnetSpec_Healthy_loop ch = Returns None \<Longrightarrow>
     \<exists>pre t d rest. ch = pre @ Event t (DaemonSetObj d) # rest \<and>
        list_all unready_daemonset pre \<and> daemonset_ready d"
proof (induction ch rule: MeshnetSpec_Healthy_loop.induct)
  case (4 t obj rest)
  show ?case
  proof (cases obj)
    case (DaemonSetObj d)
    show ?thesis
    proof (cases "daemonset_ready d")
      case True
      then have "Event t obj # rest = [] @ Event t (DaemonSetObj d) # rest \<and>
          list_all unready_daemonset [] \<and> daemonset_ready d"
        using DaemonSetObj by simp
      then show ?thesis by blast
    next
      case False
      then have no: "\<not> (Status_NumberReady d = Status_DesiredNumberScheduled d \<and>
          Status_NumberUnavailable d = 0)"
        by (simp add: daemonset_ready_def)
      then have "MeshnetSpec_Healthy_loop rest = Returns None"
        using "4.prems" DaemonSetObj by (auto split: if_splits)
      then obtain pre t' d' rest' where
        "rest = pre @ Event t' (DaemonSetObj d') # rest'" "list_all unready_daemonset pre"
        "daemonset_ready d'"
        using "4.IH" [OF DaemonSetObj no] by blast
      then have "Event t obj # rest = (Event t obj # pre) @ Event t' (DaemonSetObj d') # rest' \<and>
          list_all unready_daemonset (Event t obj # pre) \<and> daemonset_ready d'"
        using False DaemonSetObj by simp
      then show ?thesis by blast
    qed
  next
    case (DeploymentObj x)
    then show ?thesis using "4.prems" by simp
  next
    case (OtherObj x)
    then show ?thesis using "4.prems" by simp
  qed
qed simp_all

text \<open>
  C6: the Meshnet check returns success exactly when some event carries a daemon-set
  with \<open>NumberReady = DesiredNumberScheduled\<close> and \<open>NumberUnavailable = 0\<close> and
  everything before it was an event with a daemon-set that is not so. After such events
  only, a done context returns the cancellation error, a closed channel the stream-closed
  error and an object that is not a daemon-set the type-mismatch error, three different
  errors. An event whose daemon-set has \<open>NumberUnavailable = 1\<close> does not end the watch:
  the check goes on with the events after it, and succeeds on a later ready one.
\<close>

theorem MeshnetSpec_Healthy_first_ready_event:
  "(MeshnetSpec_Healthy w = Returns None \<longleftrightarrow>
      (\<exists>pre t d rest. w = Inr (pre @ Event t (DaemonSetObj d) # rest) \<and>
         list_all unready_daemonset pre \<and> daemonset_ready d)) \<and>
   (list_all unready_daemonset pre \<longrightarrow>
      MeshnetSpec_Healthy (Inr (pre @ CtxDone # rest)) =
        Returns (Some (Error ''context canceled before healthy'')) \<and>
      MeshnetSpec_Healthy (Inr (pre @ ChanClosed # rest)) =
        Returns (Some (Error ''watch channel closed before healthy'')) \<and>
      (\<forall>t obj. (\<forall>d. obj \<noteq> DaemonSetObj d) \<longrightarrow>
         MeshnetSpec_Healthy (Inr (pre @ Event t obj # rest)) =
           Returns (Some (Error ''invalid object type: *v1.DaemonSet'')))) \<and>
   distinct [Error ''context canceled before healthy'',
             Error ''watch channel closed before healthy'',
             Error ''invalid object type: *v1.DaemonSet''] \<and>
   (Status_NumberUnavailable da = 1 \<longrightarrow>
      MeshnetSpec_Healthy (Inr (Event ta (DaemonSetObj da) # rest)) =
        MeshnetSpec_Healthy (Inr rest) \<and>
      MeshnetSpec_Healthy (Inr [Event ta (DaemonSetObj da)]) = Blocks \<and>
      (daemonset_ready db \<longrightarrow>
         MeshnetSpec_Healthy (Inr [Event ta (DaemonSetObj da), Event tb (DaemonSetObj db)]) =
           Returns None))"
proof -
  have success: "MeshnetSpec_Healthy w = Returns None \<longleftrightarrow>
      (\<exists>pre t d rest. w = Inr (pre @ Event t (DaemonSetObj d) # rest) \<and>
         list_all unready_daemonset pre \<and> daemonset_ready d)"
  proof
    assume r: "MeshnetSpec_Healthy w = Returns None"
    then obtain ch where w: "w = Inr ch"
      by (cases w) (simp_all add: MeshnetSpec_Healthy_def)
    with r have "MeshnetSpec_Healthy_loop ch = Returns None"
      by (simp add: MeshnetSpec_Healthy_def)
    from MeshnetSpec_Healthy_loop_success [OF this] w
    show "\<exists>pre t d rest. w = Inr (pre @ Event t (DaemonSetObj d) # rest) \<and>
         list_all unready_daemonset pre \<and> daemonset_ready d"
      by blast
  next
    assume "\<exists>pre t d rest. w = Inr (pre @ Event t (DaemonSetObj d) # rest) \<and>
         list_all unready_daemonset pre \<and> daemonset_ready d"
    then obtain pre t d rest where w: "w = Inr (pre @ Event t (DaemonSetObj d) # rest)"
      and pre: "list_all unready_daemonset pre" and d: "daemonset_ready d"
      by blast
    from d have "MeshnetSpec_Healthy_loop (Event t (DaemonSetObj d) # rest) = Returns None"
      by (simp add: daemonset_ready_def)
    then show "MeshnetSpec_Healthy w = Returns None"
      by (simp add: w MeshnetSpec_Healthy_def MeshnetSpec_Healthy_loop_skip [OF pre])
  qed
  have failures: "MeshnetSpec_Healthy (Inr (pre @ CtxDone # rest)) =
        Returns (Some (Error ''context canceled before healthy'')) \<and>
      MeshnetSpec_Healthy (Inr (pre @ ChanClosed # rest)) =
        Returns (Some (Error ''watch channel closed before healthy'')) \<and>
      (\<forall>t obj. (\<forall>d. obj \<noteq> DaemonSetObj d) \<longrightarrow>
         MeshnetSpec_Healthy (Inr (pre @ Event t obj # rest)) =
           Returns (Some (Error ''invalid object type: *v1.DaemonSet'')))"
    if pre: "list_all unready_daemonset pre"
  proof -
    have "MeshnetSpec_Healthy_loop (pre @ Event t obj # rest) =
        Returns (Some (Error ''invalid object type: *v1.DaemonSet''))"
      if "\<forall>d. obj \<noteq> DaemonSetObj d" for t obj
      using that by (cases obj) (simp_all add: MeshnetSpec_Healthy_loop_skip [OF pre])
    then show ?thesis
      by (simp add: MeshnetSpec_Healthy_def MeshnetSpec_Healthy_loop_skip [OF pre])
  qed
  have scenario: "MeshnetSpec_Healthy (Inr (Event ta (DaemonSetObj da) # rest)) =
        MeshnetSpec_Healthy (Inr rest) \<and>
      MeshnetSpec_Healthy (Inr [Event ta (DaemonSetObj da)]) = Blocks \<and>
      (daemonset_ready db \<longrightarrow>
         MeshnetSpec_Healthy (Inr [Event ta (DaemonSetObj da), Event tb (DaemonSetObj db)]) =
           Returns None)"
    if "Status_NumberUnavailable da = 1"
    using that by (simp add: MeshnetSpec_Healthy_def daemonset_ready_def)
  from success failures scenario show ?thesis by simp
qed

theorem MeshnetSpec_Healthy_first_ready_event_witness:
  "Status_NumberUnavailable \<lparr>Status_NumberReady = 2, Status_DesiredNumberScheduled = 3,
      Status_NumberUnavailable = 1\<rparr> = 1 \<and>
   daemonset_ready \<lparr>Status_NumberReady = 3, Status_DesiredNumberScheduled = 3,
      Status_NumberUnavailable = 0\<rparr> \<and>
   MeshnetSpec_Healthy (Inr
     [Event Added (DaemonSetObj \<lparr>Status_NumberReady = 2, Status_DesiredNumberScheduled = 3,
        Status_NumberUnavailable = 1\<rparr>)]) = Blocks \<and>
   MeshnetSpec_Healthy (Inr
     [Event Added (DaemonSetObj \<lparr>Status_NumberReady = 2, Status_DesiredNumberScheduled = 3,
        Status_NumberUnavailable = 1\<rparr>),
      Event Modified (DaemonSetObj \<lparr>Status_NumberReady = 3, Status_DesiredNumberScheduled = 3,
        Status_NumberUnavailable = 0\<rparr>)]) = Returns None \<and>
   list_all unready_daemonset
     [Event Added (DaemonSetObj \<lparr>Status_NumberReady = 2, Status_DesiredNumberScheduled = 3,
        Status_NumberUnavailable = 1\<rparr>)] \<and>
   MeshnetSpec_Healthy (Inr
     [Event Added (DaemonSetObj \<lparr>Status_NumberReady = 2, Status_DesiredNumberScheduled = 3,
        Status_NumberUnavailable = 1\<rparr>),
      ChanClosed]) = Returns (Some (Error ''watch channel closed before healthy''))"
  using MeshnetSpec_Healthy_first_ready_event
    [where pre = "[Event Added (DaemonSetObj \<lparr>Status_NumberReady = 2,
        Status_DesiredNumberScheduled = 3, Status_NumberUnavailable = 1\<rparr>)]"
      and rest = "[]" and ta = Added and tb = Modified and w = "Inr []"
      and da = "\<lparr>Status_NumberReady = 2, Status_DesiredNumberScheduled = 3,
        Status_NumberUnavailable = 1\<rparr>"
      and db = "\<lparr>Status_NumberReady = 3, Status_DesiredNumberScheduled = 3,
        Status_NumberUnavailable = 0\<rparr>"]
  by (simp add: daemonset_ready_def MeshnetSpec_Healthy_def)

section \<open>The orchestrator\<close>

text \<open>
  The cluster, the ingress, the CNI and the controllers are interface values: what their
  methods do is not fixed by the repository. A method is modelled as a function on a
  world \<open>'w\<close> that the components share, returning its error and the new world; the
  cluster handle has the type \<open>'k\<close>. \<open>clientcmd.BuildConfigFromFlags\<close> and
  \<open>kubernetes.NewForConfig\<close> are external and are taken as functions too.

  To state in which order \<open>Deploy\<close> calls them, the model writes a trace next to the
  world: every call appends its name and the error it returned, at the moment it is made.
  \<open>invoke\<close> is a call of a method that returns an error, \<open>invoke_void\<close> one of a method
  without result (\<open>SetKClient\<close>), \<open>logged\<close> a step that does not touch the world.
  Contexts and their timeouts only reach the components, where they are part of what the
  method returns; the deferred \<open>cancel\<close> calls and the log lines are left out.
\<close>

datatype step =
    CheckDependencies | BuildConfigFromFlags | NewForConfig
  | Cluster_Deploy | Cluster_Delete | Cluster_Healthy
  | Ingress_SetKClient | Ingress_Deploy | Ingress_Healthy
  | CNI_SetKClient | CNI_Deploy | CNI_Healthy
  | Controller_SetKClient nat | Controller_Deploy nat | Controller_Healthy nat

type_synonym trace = "(step \<times> error option) list"

record 'w Cluster =
  Deploy :: "'w \<Rightarrow> error option \<times> 'w"
  Delete :: "'w \<Rightarrow> error option \<times> 'w"
  Healthy :: "'w \<Rightarrow> error option \<times> 'w"
  GetName :: "'w \<Rightarrow> string"

record ('w, 'k) Component =
  Deploy :: "'w \<Rightarrow> error option \<times> 'w"
  SetKClient :: "'k \<Rightarrow> 'w \<Rightarrow> 'w"
  Healthy :: "'w \<Rightarrow> error option \<times> 'w"

record ('w, 'k) Deployment =
  Cluster :: "'w Cluster"
  Ingress :: "('w, 'k) Component"
  CNI :: "('w, 'k) Component"
  Controllers :: "('w, 'k) Component list"

record ('c, 'k) deploy_env =
  execLookPath :: "string \<Rightarrow> error option"
  BuildConfig :: "string \<Rightarrow> error + 'c"
  NewClient :: "'c \<Rightarrow> error + 'k"

definition invoke :: "step \<Rightarrow> ('w \<Rightarrow> error option \<times> 'w) \<Rightarrow> 'w \<times> trace \<Rightarrow> error option \<times> 'w \<times> trace" where
  "invoke nm f s = (case f (fst s) of (r, w') \<Rightarrow> (r, w', snd s @ [(nm, r)]))"

definition invoke_void :: "step \<Rightarrow> ('w \<Rightarrow> 'w) \<Rightarrow> 'w \<times> trace \<Rightarrow> 'w \<times> trace" where
  "invoke_void nm f s = (f (fst s), snd s @ [(nm, None)])"

definition logged :: "step \<Rightarrow> error option \<Rightarrow> 'w \<times> trace \<Rightarrow> 'w \<times> trace" where
  "logged nm r s = (fst s, snd s @ [(nm, r)])"

fun Deploy_controllers ::
  "('w, 'k) Component list \<Rightarrow> nat \<Rightarrow> 'k \<Rightarrow> 'w \<times> trace \<Rightarrow> error option \<times> 'w \<times> trace" where
  "Deploy_controllers [] i kClient s = (None, s)"
| "Deploy_controllers (c # cs) i kClient s =
     (case invoke (Controller_Deploy i) (Component.Deploy c) s of
        (Some err, s) \<Rightarrow> (Some err, s)
      | (None, s) \<Rightarrow>
     (let s = invoke_void (Controller_SetKClient i) (SetKClient c kClient) s
      in case invoke (Controller_Healthy i) (Component.Healthy c) s of
        (Some err, s) \<Rightarrow> (Some err, s)
      | (None, s) \<Rightarrow> Deploy_controllers cs (Suc i) kClient s))"

definition Deployment_Deploy ::
  "('c, 'k) deploy_env \<Rightarrow> ('w, 'k) Deployment \<Rightarrow> string \<Rightarrow> 'w \<Rightarrow> error option \<times> 'w \<times> trace" where
  "Deployment_Deploy env d kubecfg w =
     (let err = Deployment_checkDependencies (execLookPath env);
          s = logged CheckDependencies err (w, [])
      in case err of Some err \<Rightarrow> (Some err, s) | None \<Rightarrow>
     (case invoke Cluster_Deploy (Cluster.Deploy (Cluster d)) s of
        (Some err, s) \<Rightarrow> (Some err, s)
      | (None, s) \<Rightarrow>
     (case BuildConfig env kubecfg of
        Inl err \<Rightarrow> (Some err, logged BuildConfigFromFlags (Some err) s)
      | Inr rCfg \<Rightarrow>
     (case NewClient env rCfg of
        Inl err \<Rightarrow> (Some err, logged NewForConfig (Some err) (logged BuildConfigFromFlags None s))
      | Inr kClient \<Rightarrow>
     (let s = logged NewForConfig None (logged BuildConfigFromFlags None s);
          s = invoke_void Ingress_SetKClient (SetKClient (Ingress d) kClient) s
      in case invoke Ingress_Deploy (Component.Deploy (Ingress d)) s of
        (Some err, s) \<Rightarrow> (Some err, s)
      | (None, s) \<Rightarrow>
     (case invoke Ingress_Healthy (Component.Healthy (Ingress d)) s of
        (Some err, s) \<Rightarrow> (Some err, s)
      | (None, s) \<Rightarrow>
     (case invoke CNI_Deploy (Component.Deploy (CNI d)) s of
        (Some err, s) \<Rightarrow> (Some err, s)
      | (None, s) \<Rightarrow>
     (let s = invoke_void CNI_SetKClient (SetKClient (CNI d) kClient) s
      in case invoke CNI_Healthy (Component.Healthy (CNI d)) s of
        (Some err, s) \<Rightarrow> (Some err, s)
      | (None, s) \<Rightarrow> Deploy_controllers (Controllers d) 0 kClient s))))))))"

text \<open>The order of the steps of a full run with \<open>n\<close> controllers.\<close>

fun controller_order :: "nat \<Rightarrow> nat \<Rightarrow> step list" where
  "controller_order i 0 = []"
| "controller_order i (Suc n) =
     [Controller_Deploy i, Controller_SetKClient i, Controller_Healthy i] @ controller_order (Suc i) n"

definition Deploy_order :: "nat \<Rightarrow> step list" where
  "Deploy_order n =
     [CheckDependencies, Cluster_Deploy, BuildConfigFromFlags, NewForConfig,
      Ingress_SetKClient, Ingress_Deploy, Ingress_Healthy,
      CNI_Deploy, CNI_SetKClient, CNI_Healthy] @ controller_order 0 n"

text \<open>
  The specification's reading of \<open>Deploy\<close>, to compare the function with:
  \<open>run_in_order\<close> runs a list of named stages, each on the world the one before left,
  writes the error of each to the trace and stops at the first stage that returns an
  error, returning it and the world that stage left. \<open>Deploy_stages\<close> is the list for a
  deployment: its entries are the methods of the deployment's own components, the
  controllers taken by their index in the configured list, and every handle injection
  passes the handle that \<open>NewForConfig\<close> made from the configuration of the given path.
  (If no handle can be made the run stops at one of the first four stages.)
\<close>

fun run_in_order ::
  "(step \<times> ('w \<Rightarrow> error option \<times> 'w)) list \<Rightarrow> 'w \<times> trace \<Rightarrow> error option \<times> 'w \<times> trace" where
  "run_in_order [] s = (None, s)"
| "run_in_order ((nm, f) # rest) s =
     (case f (fst s) of
        (Some err, w') \<Rightarrow> (Some err, w', snd s @ [(nm, Some err)])
      | (None, w') \<Rightarrow> run_in_order rest (w', snd s @ [(nm, None)]))"

definition cluster_handle :: "('c, 'k) deploy_env \<Rightarrow> string \<Rightarrow> error + 'k" where
  "cluster_handle env kubecfg =
     (case BuildConfig env kubecfg of Inl err \<Rightarrow> Inl err | Inr rCfg \<Rightarrow> NewClient env rCfg)"

definition failure :: "error + 'a \<Rightarrow> error option" where
  "failure r = (case r of Inl err \<Rightarrow> Some err | Inr v \<Rightarrow> None)"

definition controller_stages ::
  "('w, 'k) Component list \<Rightarrow> 'k \<Rightarrow> (step \<times> ('w \<Rightarrow> error option \<times> 'w)) list" where
  "controller_stages cs kClient =
     concat (map (\<lambda>i.
       [(Controller_Deploy i, Component.Deploy (cs ! i)),
        (Controller_SetKClient i, \<lambda>w. (None, SetKClient (cs ! i) kClient w)),
        (Controller_Healthy i, Component.Healthy (cs ! i))]) [0..<length cs])"

definition Deploy_stages ::
  "('c, 'k) deploy_env \<Rightarrow> ('w, 'k) Deployment \<Rightarrow> string \<Rightarrow> (step \<times> ('w \<Rightarrow> error option \<times> 'w)) list" where
  "Deploy_stages env d kubecfg =
     [(CheckDependencies, \<lambda>w. (Deployment_checkDependencies (execLookPath env), w)),
      (Cluster_Deploy, Cluster.Deploy (Cluster d)),
      (BuildConfigFromFlags, \<lambda>w. (failure (BuildConfig env kubecfg), w)),
      (NewForConfig, \<lambda>w. (failure (cluster_handle env kubecfg), w))] @
     (case cluster_handle env kubecfg of
        Inl err \<Rightarrow> []
      | Inr kClient \<Rightarrow>
          [(Ingress_SetKClient, \<lambda>w. (None, SetKClient (Ingress d) kClient w)),
           (Ingress_Deploy, Component.Deploy (Ingress d)),
           (Ingress_Healthy, Component.Healthy (Ingress d)),
           (CNI_Deploy, Component.Deploy (CNI d)),
           (CNI_SetKClient, \<lambda>w. (None, SetKClient (CNI d) kClient w)),
           (CNI_Healthy, Component.Healthy (CNI d))] @
          controller_stages (Controllers d) kClient)"

text \<open>The controller stages as the loop meets them, from index \<open>i\<close> on.\<close>

fun controller_stages_from ::
  "('w, 'k) Component list \<Rightarrow> nat \<Rightarrow> 'k \<Rightarrow> (step \<times> ('w \<Rightarrow> error option \<times> 'w)) list" where
  "controller_stages_from [] i kClient = []"
| "controller_stages_from (c # cs) i kClient =
     [(Controller_Deploy i, Component.Deploy c),
      (Controller_SetKClient i, \<lambda>w. (None, SetKClient c kClient w)),
      (Controller_Healthy i, Component.Healthy c)] @ controller_stages_from cs (Suc i) kClient"

lemma controller_stages_from_index:
  "controller_stages_from cs i k =
     concat (map (\<lambda>j.
       [(Controller_Deploy (i + j), Component.Deploy (cs ! j)),
        (Controller_SetKClient (i + j), \<lambda>w. (None, SetKClient (cs ! j) k w)),
        (Controller_Healthy (i + j), Component.Healthy (cs ! j))]) [0..<length cs])"
proof (induction cs arbitrary: i)
  case Nil
  show ?case by simp
next
  case (Cons c cs)
  have "[0..<length (c # cs)] = 0 # map Suc [0..<length cs]"
    by (simp add: upt_conv_Cons map_Suc_upt del: upt_Suc)
  then show ?case by (simp add: Cons.IH comp_def del: upt_Suc)
qed

lemma controller_stages_from_0: "controller_stages_from cs 0 k = controller_stages cs k"
  by (simp add: controller_stages_from_index controller_stages_def)

lemma Deploy_controllers_run:
  "Deploy_controllers cs i k s = run_in_order (controller_stages_from cs i k) s"
proof (induction cs arbitrary: i s)
  case Nil
  show ?case by simp
next
  case (Cons c cs)
  show ?case
    by (cases s)
       (auto simp: invoke_def invoke_void_def Let_def Cons.IH split: prod.splits option.splits)
qed

lemma Deploy_run:
  "Deployment_Deploy env d kubecfg w = run_in_order (Deploy_stages env d kubecfg) (w, [])"
  by (auto simp: Deployment_Deploy_def Deploy_stages_def cluster_handle_def failure_def
      invoke_def invoke_void_def logged_def Let_def Deploy_controllers_run
      controller_stages_from_0 split: prod.splits option.splits sum.splits)

lemma controller_stages_from_names:
  "map fst (controller_stages_from cs i k) = controller_order i (length cs)"
  by (induction cs arbitrary: i) simp_all

lemma Deploy_stages_names:
  "cluster_handle env kubecfg = Inr k \<Longrightarrow>
     map fst (Deploy_stages env d kubecfg) = Deploy_order (length (Controllers d))"
  using controller_stages_from_names [of "Controllers d" 0 k]
  by (simp add: Deploy_stages_def Deploy_order_def controller_stages_from_0)

lemma Deploy_controllers_trace:
  "Deploy_controllers cs i k (w, tr) = (err, w', tr') \<Longrightarrow>
     \<exists>ext. tr' = tr @ ext \<and>
       prefix (map fst ext) (controller_order i (length cs)) \<and>
       list_all (\<lambda>e. snd e = None) (butlast ext) \<and>
       (case err of
          None \<Rightarrow> map fst ext = controller_order i (length cs) \<and> list_all (\<lambda>e. snd e = None) ext
        | Some e \<Rightarrow> ext \<noteq> [] \<and> snd (last ext) = Some e)"
proof (induction cs arbitrary: i w tr)
  case Nil
  then show ?case by simp
next
  case (Cons c cs)
  obtain r1 w1 where d: "Component.Deploy c w = (r1, w1)" by (cases "Component.Deploy c w")
  show ?case
  proof (cases r1)
    case (Some e)
    with Cons.prems d have "tr' = tr @ [(Controller_Deploy i, Some e)]" "err = Some e"
      by (auto simp: invoke_def invoke_void_def)
    then show ?thesis by simp
  next
    case None
    let ?w2 = "SetKClient c k w1"
    obtain r3 w3 where h: "Component.Healthy c ?w2 = (r3, w3)" by (cases "Component.Healthy c ?w2")
    let ?pre = "[(Controller_Deploy i, None), (Controller_SetKClient i, None), (Controller_Healthy i, r3)]"
    show ?thesis
    proof (cases r3)
      case (Some e)
      with Cons.prems d h None have "tr' = tr @ ?pre" "err = Some e"
        by (auto simp: invoke_def invoke_void_def)
      then show ?thesis using Some by simp
    next
      case r3: None
      with Cons.prems d h None
      have "Deploy_controllers cs (Suc i) k (w3, tr @ ?pre) = (err, w', tr')"
        by (simp add: invoke_def invoke_void_def)
      from Cons.IH [OF this] obtain ext where ext: "tr' = (tr @ ?pre) @ ext"
        "prefix (map fst ext) (controller_order (Suc i) (length cs))"
        "list_all (\<lambda>e. snd e = None) (butlast ext)"
        "(case err of
          None \<Rightarrow> map fst ext = controller_order (Suc i) (length cs) \<and> list_all (\<lambda>e. snd e = None) ext
        | Some e \<Rightarrow> ext \<noteq> [] \<and> snd (last ext) = Some e)"
        by blast
      have "tr' = tr @ (?pre @ ext)" using ext(1) by simp
      moreover have "prefix (map fst (?pre @ ext)) (controller_order i (length (c # cs)))"
        using ext(2) by simp
      moreover have "list_all (\<lambda>e. snd e = None) (butlast (?pre @ ext))"
        using ext(3) r3 by (simp add: butlast_append)
      moreover have "(case err of
          None \<Rightarrow> map fst (?pre @ ext) = controller_order i (length (c # cs)) \<and>
            list_all (\<lambda>e. snd e = None) (?pre @ ext)
        | Some e \<Rightarrow> ?pre @ ext \<noteq> [] \<and> snd (last (?pre @ ext)) = Some e)"
        using ext(4) r3 by (cases err) simp_all
      ultimately show ?thesis by blast
    qed
  qed
qed

lemma no_Delete_in_controller_order: "Cluster_Delete \<notin> set (controller_order i n)"
  by (induction n arbitrary: i) simp_all

lemma Deploy_tail:
  assumes "Deploy_controllers cs 0 k (w, tr) = (err, w', tr')"
    and "map fst tr = pre" and "list_all (\<lambda>e. snd e = None) tr" and "tr \<noteq> []"
  shows "prefix (map fst tr') (pre @ controller_order 0 (length cs)) \<and>
     list_all (\<lambda>e. snd e = None) (butlast tr') \<and> tr' \<noteq> [] \<and> err = snd (last tr') \<and>
     (err = None \<longrightarrow> map fst tr' = pre @ controller_order 0 (length cs))"
proof -
  from Deploy_controllers_trace [OF assms(1)] obtain ext where ext: "tr' = tr @ ext"
    "prefix (map fst ext) (controller_order 0 (length cs))"
    "list_all (\<lambda>e. snd e = None) (butlast ext)"
    "(case err of
          None \<Rightarrow> map fst ext = controller_order 0 (length cs) \<and> list_all (\<lambda>e. snd e = None) ext
        | Some e \<Rightarrow> ext \<noteq> [] \<and> snd (last ext) = Some e)"
    by blast
  show ?thesis
  proof (cases err)
    case None
    with ext(4) have all: "map fst ext = controller_order 0 (length cs)"
      "list_all (\<lambda>e. snd e = None) ext" by simp_all
    have "list_all (\<lambda>e. snd e = None) tr'" using all assms(3) ext(1) by simp
    moreover have "tr' \<noteq> []" using assms(4) ext(1) by simp
    ultimately have "list_all (\<lambda>e. snd e = None) (butlast tr')" "snd (last tr') = None"
      by (auto simp: list_all_iff dest: in_set_butlastD)
    then show ?thesis using None all assms(2,4) ext(1) by simp
  next
    case (Some e)
    with ext(4) have "ext \<noteq> []" "snd (last ext) = Some e" by simp_all
    then show ?thesis using Some ext(1,2,3) assms(2,3) by (simp add: butlast_append)
  qed
qed

lemma Deploy_trace_shape:
  "Deployment_Deploy env d kubecfg w = (err, w', tr) \<Longrightarrow>
     prefix (map fst tr) (Deploy_order (length (Controllers d))) \<and>
     list_all (\<lambda>e. snd e = None) (butlast tr) \<and> tr \<noteq> [] \<and> err = snd (last tr) \<and>
     (err = None \<longrightarrow> map fst tr = Deploy_order (length (Controllers d)))"
  apply (simp add: Deployment_Deploy_def Let_def invoke_def invoke_void_def logged_def
      Deploy_order_def split: option.splits sum.splits prod.splits)
  apply (auto dest!: Deploy_tail)
  done

text \<open>
  A deployment whose components write their calls into the world, a list of strings; the
  health wait of the second controller of three fails.
\<close>

definition recording_component :: "string \<Rightarrow> error option \<Rightarrow> (string list, string) Component" where
  "recording_component name health =
     \<lparr>Component.Deploy = (\<lambda>w. (None, w @ [name @ ''.Deploy''])),
      SetKClient = (\<lambda>k w. w @ [name @ ''.SetKClient '' @ k]),
      Component.Healthy = (\<lambda>w. (health, w @ [name @ ''.Healthy'']))\<rparr>"

definition recording_deployment :: "(string list, string) Deployment" where
  "recording_deployment =
     \<lparr>Cluster = \<lparr>Cluster.Deploy = (\<lambda>w. (None, w @ [''cluster.Deploy''])),
                   Delete = (\<lambda>w. (None, w @ [''cluster.Delete''])),
                   Cluster.Healthy = (\<lambda>w. (None, w @ [''cluster.Healthy''])),
                   GetName = (\<lambda>w. ''kind'')\<rparr>,
      Ingress = recording_component ''ingress'' None,
      CNI = recording_component ''cni'' None,
      Controllers =
        [recording_component ''controller0'' None,
         recording_component ''controller1'' (Some (Error ''watch channel closed before healthy'')),
         recording_component ''controller2'' None]\<rparr>"

definition recording_env :: "(string, string) deploy_env" where
  "recording_env =
     \<lparr>execLookPath = (\<lambda>bin. None), BuildConfig = (\<lambda>path. Inr path),
      NewClient = (\<lambda>cfg. Inr (''client of '' @ cfg))\<rparr>"

text \<open>
  C2: whatever the components do, \<open>Deploy\<close> is the run of its stages in order that stops
  at the first error: the result, the world it leaves and the trace are those of
  \<open>run_in_order\<close> on the methods of the deployment's own components, named in the full
  order (dependency check, cluster deploy, building the handle, then for the ingress
  handle injection, deploy and health wait, for the CNI deploy, handle injection and
  health wait, and for each controller in configured order deploy, handle injection and
  health wait). So the calls made are an initial part of that order, every call but the
  last returned no error, \<open>Deploy\<close> returns what the last call returned and calls nothing
  after it, and without error the whole order was run. \<open>Cluster.Delete\<close> is never
  called.
\<close>

theorem Deploy_stops_at_first_error:
  "Deployment_Deploy env d kubecfg w = (err, w', tr) \<Longrightarrow>
     (err, w', tr) = run_in_order (Deploy_stages env d kubecfg) (w, []) \<and>
     (\<forall>kClient. cluster_handle env kubecfg = Inr kClient \<longrightarrow>
        map fst (Deploy_stages env d kubecfg) = Deploy_order (length (Controllers d))) \<and>
     prefix (map fst tr) (Deploy_order (length (Controllers d))) \<and>
     list_all (\<lambda>e. snd e = None) (butlast tr) \<and> tr \<noteq> [] \<and> err = snd (last tr) \<and>
     (err = None \<longrightarrow> map fst tr = Deploy_order (length (Controllers d))) \<and>
     Cluster_Delete \<notin> set (map fst tr)"
proof -
  assume run: "Deployment_Deploy env d kubecfg w = (err, w', tr)"
  note shape = Deploy_trace_shape [OF run]
  have "Cluster_Delete \<notin> set (Deploy_order (length (Controllers d)))"
    by (simp add: Deploy_order_def no_Delete_in_controller_order)
  moreover have "set (map fst tr) \<subseteq> set (Deploy_order (length (Controllers d)))"
    using shape set_mono_prefix [of "map fst tr" "Deploy_order (length (Controllers d))"]
    by simp
  ultimately have "Cluster_Delete \<notin> set (map fst tr)" by blast
  moreover have "(err, w', tr) = run_in_order (Deploy_stages env d kubecfg) (w, [])"
    using run Deploy_run [of env d kubecfg w] by simp
  ultimately show ?thesis using shape Deploy_stages_names [of env kubecfg _ d] by blast
qed

theorem Deploy_stops_at_first_error_witness:
  "Deployment_Deploy recording_env recording_deployment ''kubecfg'' [] =
     (Some (Error ''watch channel closed before healthy''),
      [''cluster.Deploy'',
       ''ingress.SetKClient client of kubecfg'', ''ingress.Deploy'', ''ingress.Healthy'',
       ''cni.Deploy'', ''cni.SetKClient client of kubecfg'', ''cni.Healthy'',
       ''controller0.Deploy'', ''controller0.SetKClient client of kubecfg'', ''controller0.Healthy'',
       ''controller1.Deploy'', ''controller1.SetKClient client of kubecfg'', ''controller1.Healthy''],
      [(CheckDependencies, None), (Cluster_Deploy, None), (BuildConfigFromFlags, None),
       (NewForConfig, None), (Ingress_SetKClient, None), (Ingress_Deploy, None),
       (Ingress_Healthy, None), (CNI_Deploy, None), (CNI_SetKClient, None), (CNI_Healthy, None),
       (Controller_Deploy 0, None), (Controller_SetKClient 0, None), (Controller_Healthy 0, None),
       (Controller_Deploy 1, None), (Controller_SetKClient 1, None),
       (Controller_Healthy 1, Some (Error ''watch channel closed before healthy''))]) \<and>
   run_in_order (Deploy_stages recording_env recording_deployment ''kubecfg'') ([], []) =
     Deployment_Deploy recording_env recording_deployment ''kubecfg'' []"
proof -
  have run: "Deployment_Deploy recording_env recording_deployment ''kubecfg'' [] =
     (Some (Error ''watch channel closed before healthy''),
      [''cluster.Deploy'',
       ''ingress.SetKClient client of kubecfg'', ''ingress.Deploy'', ''ingress.Healthy'',
       ''cni.Deploy'', ''cni.SetKClient client of kubecfg'', ''cni.Healthy'',
       ''controller0.Deploy'', ''controller0.SetKClient client of kubecfg'', ''controller0.Healthy'',
       ''controller1.Deploy'', ''controller1.SetKClient client of kubecfg'', ''controller1.Healthy''],
      [(CheckDependencies, None), (Cluster_Deploy, None), (BuildConfigFromFlags, None),
       (NewForConfig, None), (Ingress_SetKClient, None), (Ingress_Deploy, None),
       (Ingress_Healthy, None), (CNI_Deploy, None), (CNI_SetKClient, None), (CNI_Healthy, None),
       (Controller_Deploy 0, None), (Controller_SetKClient 0, None), (Controller_Healthy 0, None),
       (Controller_Deploy 1, None), (Controller_SetKClient 1, None),
       (Controller_Healthy 1, Some (Error ''watch channel closed before healthy''))])"
    by (simp add: Deployment_Deploy_def recording_env_def recording_deployment_def
        recording_component_def Deployment_checkDependencies_def Err_def Let_def
        invoke_def invoke_void_def logged_def)
  note all = Deploy_stops_at_first_error [OF run]
  from all have "run_in_order (Deploy_stages recording_env recording_deployment ''kubecfg'')
      ([], []) =
     (Some (Error ''watch channel closed before healthy''),
      [''cluster.Deploy'',
       ''ingress.SetKClient client of kubecfg'', ''ingress.Deploy'', ''ingress.Healthy'',
       ''cni.Deploy'', ''cni.SetKClient client of kubecfg'', ''cni.Healthy'',
       ''controller0.Deploy'', ''controller0.SetKClient client of kubecfg'', ''controller0.Healthy'',
       ''controller1.Deploy'', ''controller1.SetKClient client of kubecfg'', ''controller1.Healthy''],
      [(CheckDependencies, None), (Cluster_Deploy, None), (BuildConfigFromFlags, None),
       (NewForConfig, None), (Ingress_SetKClient, None), (Ingress_Deploy, None),
       (Ingress_Healthy, None), (CNI_Deploy, None), (CNI_SetKClient, None), (CNI_Healthy, None),
       (Controller_Deploy 0, None), (Controller_SetKClient 0, None), (Controller_Healthy 0, None),
       (Controller_Deploy 1, None), (Controller_SetKClient 1, None),
       (Controller_Healthy 1, Some (Error ''watch channel closed before healthy''))])"
    by (elim conjE) (erule sym)
  then have "run_in_order (Deploy_stages recording_env recording_deployment ''kubecfg'') ([], []) =
     Deployment_Deploy recording_env recording_deployment ''kubecfg'' []"
    by (simp only: run)
  with run show ?thesis by (rule conjI)
qed

section \<open>The kind cluster\<close>

text \<open>
  The methods of \<open>KindSpec\<close> act on the host: they run commands through the package's
  \<open>execer\<close>, whose standard output can be redirected, and
  \<open>setupGoogleArtifactRegistryAccess\<close> also changes the environment variable
  \<open>DOCKER_CONFIG\<close> and writes a file in a temporary directory. \<open>host\<close> is that state:
  the variable (\<open>None\<close> when unset), the temporary directories and the files written,
  the writer the execer sends standard output to, the contents of the two buffers
  \<open>token\<close> and \<open>nodes\<close> that the function declares, and the commands run so far.

  What the host answers is not fixed by the repository and is taken as \<open>os_behaviour\<close>:
  the lookup of a binary, the result of \<open>os.MkdirTemp\<close>, the error of \<open>os.Create\<close> on
  a path, for a command (given the commands run before it) its error and what it prints
  on standard output, and the text of a duration. \<open>os.Setenv\<close> fails exactly on a value
  with a NUL byte, as the Go library documents for a valid key.
\<close>

datatype writer = LoggerOut | TokenBuffer | NodesBuffer

record host =
  DOCKER_CONFIG :: "string option"
  tempdirs :: "string list"
  files :: "(string \<times> string) list"
  Stdout :: writer
  token :: string
  nodes :: string
  execs :: "(string \<times> string list) list"

record os_behaviour =
  LookPath :: "string \<Rightarrow> error option"
  MkdirTemp :: "error + string"
  Create :: "string \<Rightarrow> error option"
  command :: "(string \<times> string list) list \<Rightarrow> string \<Rightarrow> string list \<Rightarrow> error option \<times> string"
  Duration_String :: "int \<Rightarrow> string"

definition Exec :: "os_behaviour \<Rightarrow> string \<Rightarrow> string list \<Rightarrow> host \<Rightarrow> error option \<times> host" where
  "Exec os cmd args h =
     (case command os (execs h) cmd args of
        (err, out) \<Rightarrow>
          (err, h\<lparr>execs := execs h @ [(cmd, args)],
                 token := (if Stdout h = TokenBuffer then token h @ out else token h),
                 nodes := (if Stdout h = NodesBuffer then nodes h @ out else nodes h)\<rparr>))"

definition SetStdout :: "writer \<Rightarrow> host \<Rightarrow> host" where
  "SetStdout wr h = h\<lparr>Stdout := wr\<rparr>"

definition Getenv :: "host \<Rightarrow> string" where
  "Getenv h = (case DOCKER_CONFIG h of None \<Rightarrow> [] | Some v \<Rightarrow> v)"

definition Setenv :: "string \<Rightarrow> host \<Rightarrow> error option \<times> host" where
  "Setenv v h =
     (if CHR 0x00 \<in> set v then (Some (Error ''setenv: invalid argument''), h)
      else (None, h\<lparr>DOCKER_CONFIG := Some v\<rparr>))"

definition RemoveAll :: "string \<Rightarrow> host \<Rightarrow> host" where
  "RemoveAll dir h =
     h\<lparr>tempdirs := removeAll dir (tempdirs h),
       files := filter (\<lambda>(p, c). \<not> prefix (dir @ ''/'') p) (files h)\<rparr>"

text \<open>
  The text that \<open>dockerConfigTemplate\<close> renders for a list of registries; the template
  writes each registry between double quotes as it is.
\<close>

definition dockerConfig :: "string list \<Rightarrow> string" where
  "dockerConfig registries =
     ''{'' @ [CHR 0x0A] @ ''  '' @ [CHR 0x22] @ ''auths'' @ [CHR 0x22] @ '': {'' @ [CHR 0x0A] @
     concat (map (\<lambda>val. ''    '' @ [CHR 0x22] @ val @ [CHR 0x22] @ '': {}'' @ [CHR 0x0A])
       registries) @
     ''  }'' @ [CHR 0x0A] @ ''}'' @ [CHR 0x0A]"

definition writeDockerConfig :: "os_behaviour \<Rightarrow> string \<Rightarrow> string list \<Rightarrow> host \<Rightarrow> error option \<times> host" where
  "writeDockerConfig os path registries h =
     (case Create os path of
        Some err \<Rightarrow> (Some err, h)
      | None \<Rightarrow>
          (None, h\<lparr>files := (path, dockerConfig registries) # filter (\<lambda>(p, c). p \<noteq> path) (files h)\<rparr>))"

text \<open>
  \<open>strings.Split\<close> on a one-character separator and \<open>strings.TrimSuffix\<close> of one
  newline. The branch of \<open>Split\<close> for an empty result is never taken: the result has
  always at least one element.
\<close>

fun Split :: "string \<Rightarrow> char \<Rightarrow> string list" where
  "Split [] sep = [[]]"
| "Split (c # cs) sep =
     (if c = sep then [] # Split cs sep
      else case Split cs sep of [] \<Rightarrow> [[c]] | w # ws \<Rightarrow> (c # w) # ws)"

definition TrimSuffix_newline :: "string \<Rightarrow> string" where
  "TrimSuffix_newline s = (if s \<noteq> [] \<and> last s = CHR 0x0A then butlast s else s)"

text \<open>
  \<open>setupGoogleArtifactRegistryAccess\<close>: \<open>login_registries\<close> and \<open>configure_nodes\<close> are
  its two loops, \<open>setup_body\<close> is the function from the first \<open>os.Setenv\<close> on, that
  is everything that runs between the registration of the two deferred calls and their
  execution. The deferred calls run on every return of \<open>setup_body\<close>, last registered
  first: \<open>os.Setenv\<close> of the original value, whose error is dropped, then
  \<open>os.RemoveAll\<close>.
\<close>

fun login_registries :: "os_behaviour \<Rightarrow> string \<Rightarrow> string list \<Rightarrow> host \<Rightarrow> error option \<times> host" where
  "login_registries os tok [] h = (None, h)"
| "login_registries os tok (r # rs) h =
     (let s = ''https://'' @ r
      in case Exec os ''docker'' [''login'', ''-u'', ''oauth2accesstoken'', ''-p'', tok, s] h of
        (Some err, h) \<Rightarrow> (Some err, h)
      | (None, h) \<Rightarrow> login_registries os tok rs h)"

fun configure_nodes :: "os_behaviour \<Rightarrow> string \<Rightarrow> string list \<Rightarrow> host \<Rightarrow> error option \<times> host" where
  "configure_nodes os configPath [] h = (None, h)"
| "configure_nodes os configPath (node # ns) h =
     (let node = TrimSuffix_newline node
      in case Exec os ''docker'' [''cp'', configPath, node @ '':/var/lib/kubelet/config.json''] h of
        (Some err, h) \<Rightarrow> (Some err, h)
      | (None, h) \<Rightarrow>
     (case Exec os ''docker'' [''exec'', node, ''systemctl'', ''restart'', ''kubelet.service''] h of
        (Some err, h) \<Rightarrow> (Some err, h)
      | (None, h) \<Rightarrow> configure_nodes os configPath ns h))"

definition setup_body :: "os_behaviour \<Rightarrow> KindSpec \<Rightarrow> string \<Rightarrow> host \<Rightarrow> error option \<times> host" where
  "setup_body os k tempDockerDir h =
     (case Setenv tempDockerDir h of
        (Some err, h) \<Rightarrow> (Some err, h)
      | (None, h) \<Rightarrow>
     (let configPath = tempDockerDir @ ''/config.json''
      in case writeDockerConfig os configPath (GoogleArtifactRegistries k) h of
        (Some err, h) \<Rightarrow> (Some err, h)
      | (None, h) \<Rightarrow>
     (let h = SetStdout TokenBuffer (h\<lparr>token := []\<rparr>)
      in case Exec os ''gcloud'' [''auth'', ''print-access-token''] h of
        (Some err, h) \<Rightarrow> (Some err, h)
      | (None, h) \<Rightarrow>
     (let h = SetStdout LoggerOut h
      in case login_registries os (token h) (GoogleArtifactRegistries k) h of
        (Some err, h) \<Rightarrow> (Some err, h)
      | (None, h) \<Rightarrow>
     (let args = [''get'', ''nodes''];
          args = (if Name k \<noteq> [] then args @ [''--name'', Name k] else args);
          h = SetStdout NodesBuffer (h\<lparr>nodes := []\<rparr>)
      in case Exec os ''kind'' args h of
        (Some err, h) \<Rightarrow> (Some err, h)
      | (None, h) \<Rightarrow>
     (let h = SetStdout LoggerOut h
      in configure_nodes os configPath (Split (nodes h) CHR '' '') h))))))"

definition setupGoogleArtifactRegistryAccess :: "os_behaviour \<Rightarrow> KindSpec \<Rightarrow> host \<Rightarrow> error option \<times> host" where
  "setupGoogleArtifactRegistryAccess os k h =
     (case MkdirTemp os of
        Inl err \<Rightarrow> (Some err, h)
      | Inr tempDockerDir \<Rightarrow>
          (let h = h\<lparr>tempdirs := tempDockerDir # tempdirs h\<rparr>;
               originalConfig = Getenv h
           in case setup_body os k tempDockerDir h of
             (err, h) \<Rightarrow>
               (let h = snd (Setenv originalConfig h);
                    h = RemoveAll tempDockerDir h
                in (err, h))))"

text \<open>
  \<open>ContainerImages\<close> is a Go map; the list is its pairs in the order the \<open>range\<close> loop
  meets them.
\<close>

fun loadContainerImages :: "os_behaviour \<Rightarrow> KindSpec \<Rightarrow> (string \<times> string) list \<Rightarrow> host \<Rightarrow> error option \<times> host" where
  "loadContainerImages os k [] h = (None, h)"
| "loadContainerImages os k ((s, d) # images) h =
     (case Exec os ''docker'' [''pull'', s] h of
        (Some err, h) \<Rightarrow> (Some (Wrap (''failed to pull '' @ quote s @ '': '') err), h)
      | (None, h) \<Rightarrow>
     (case Exec os ''docker'' [''tag'', s, d] h of
        (Some err, h) \<Rightarrow>
          (Some (Wrap (''failed to tag '' @ quote s @ '' with '' @ quote d @ '': '') err), h)
      | (None, h) \<Rightarrow>
     (let args = [''load'', ''docker-image'', d];
          args = (if Name k \<noteq> [] then args @ [''--name'', Name k] else args)
      in case Exec os ''kind'' args h of
        (Some err, h) \<Rightarrow> (Some (Wrap (''failed to load '' @ quote d @ '': '') err), h)
      | (None, h) \<Rightarrow> loadContainerImages os k images h)))"

text \<open>
  \<open>KindSpec.Deploy\<close>: \<open>apply_manifests\<close> is the loop over the additional manifests,
  \<open>create_args\<close> the argument list of the creation command, \<open>create_cluster\<close> the part
  of \<open>Deploy\<close> after the recycle branch, which returns from inside that branch when the
  probe succeeds.
\<close>

fun apply_manifests :: "os_behaviour \<Rightarrow> string list \<Rightarrow> host \<Rightarrow> error option \<times> host" where
  "apply_manifests os [] h = (None, h)"
| "apply_manifests os (s # manifests) h =
     (case Exec os ''kubectl'' [''apply'', ''-f'', s] h of
        (Some err, h) \<Rightarrow> (Some (Wrap ''failed to deploy manifest: '' err), h)
      | (None, h) \<Rightarrow> apply_manifests os manifests h)"

definition create_args :: "os_behaviour \<Rightarrow> KindSpec \<Rightarrow> string list" where
  "create_args os k =
     (let args = [''create'', ''cluster''];
          args = (if Name k \<noteq> [] then args @ [''--name'', Name k] else args);
          args = (if Image k \<noteq> [] then args @ [''--image'', Image k] else args);
          args = (if Retain k then args @ [''--retain''] else args);
          args = (if Wait k \<noteq> 0 then args @ [''--wait'', Duration_String os (Wait k)] else args);
          args = (if Kubecfg k \<noteq> [] then args @ [''--kubeconfig'', Kubecfg k] else args);
          args = (if KindConfigFile k \<noteq> [] then args @ [''--config'', KindConfigFile k] else args)
      in args)"

definition create_cluster :: "os_behaviour \<Rightarrow> KindSpec \<Rightarrow> host \<Rightarrow> error option \<times> host" where
  "create_cluster os k h =
     (case Exec os ''kind'' (create_args os k) h of
        (Some err, h) \<Rightarrow> (Some (Wrap ''failed to create cluster: '' err), h)
      | (None, h) \<Rightarrow>
     (case apply_manifests os (AdditionalManifests k) h of
        (Some err, h) \<Rightarrow> (Some err, h)
      | (None, h) \<Rightarrow>
     (case (if length (GoogleArtifactRegistries k) \<noteq> 0
            then (case setupGoogleArtifactRegistryAccess os k h of
                    (Some err, h) \<Rightarrow>
                      (Some (Wrap ''failed to setup Google artifact registry access: '' err), h)
                  | (None, h) \<Rightarrow> (None, h))
            else (None, h)) of
        (Some err, h) \<Rightarrow> (Some err, h)
      | (None, h) \<Rightarrow>
     (if length (ContainerImages k) \<noteq> 0
      then (case loadContainerImages os k (ContainerImages k) h of
              (Some err, h) \<Rightarrow> (Some (Wrap ''failed to load container images: '' err), h)
            | (None, h) \<Rightarrow> (None, h))
      else (None, h)))))"

definition KindSpec_Deploy :: "os_behaviour \<Rightarrow> KindSpec \<Rightarrow> host \<Rightarrow> error option \<times> host" where
  "KindSpec_Deploy os k h =
     (case KindSpec_checkDependencies k (LookPath os) of
        Some err \<Rightarrow> (Some err, h)
      | None \<Rightarrow>
          (if Recycle k
           then (case Exec os ''kubectl'' [''cluster-info'', ''--context'', ''kind-'' @ Name k] h of
                   (None, h) \<Rightarrow> (None, h)
                 | (Some err, h) \<Rightarrow> create_cluster os k h)
           else create_cluster os k h))"


text \<open>
  C9: with the recycle flag set, when the probe \<open>kubectl cluster-info --context kind-<name>\<close>
  is run (the dependency check, which comes first, passed) and succeeds, \<open>Deploy\<close>
  returns no error and the probe is the only command it ran: the creation command is not
  among the commands of this call.
\<close>

theorem KindSpec_Deploy_recycles_existing_cluster:
  "Recycle k \<Longrightarrow> KindSpec_checkDependencies k (LookPath os) = None \<Longrightarrow>
   fst (command os (execs h) ''kubectl'' [''cluster-info'', ''--context'', ''kind-'' @ Name k]) = None \<Longrightarrow>
     fst (KindSpec_Deploy os k h) = None \<and>
     execs (snd (KindSpec_Deploy os k h)) =
       execs h @ [(''kubectl'', [''cluster-info'', ''--context'', ''kind-'' @ Name k])] \<and>
     (''kind'', create_args os k) \<notin>
       set (drop (length (execs h)) (execs (snd (KindSpec_Deploy os k h))))"
  by (auto simp: KindSpec_Deploy_def Exec_def split: prod.splits option.splits)

theorem KindSpec_Deploy_recycles_existing_cluster_witness:
  "Recycle \<lparr>Name = ''kne'', Recycle = True, Version = [], Image = [], Retain = False,
      Wait = 0, Kubecfg = [], GoogleArtifactRegistries = [], ContainerImages = [],
      KindConfigFile = [], AdditionalManifests = [''m.yaml'']\<rparr> \<and>
   fst (KindSpec_Deploy
     \<lparr>LookPath = (\<lambda>bin. None), MkdirTemp = Inr ''/tmp/kne_kind_docker1'',
      Create = (\<lambda>path. None), command = (\<lambda>past cmd args. (None, [])),
      Duration_String = (\<lambda>d. ''0s'')\<rparr>
     \<lparr>Name = ''kne'', Recycle = True, Version = [], Image = [], Retain = False,
      Wait = 0, Kubecfg = [], GoogleArtifactRegistries = [], ContainerImages = [],
      KindConfigFile = [], AdditionalManifests = [''m.yaml'']\<rparr>
     \<lparr>DOCKER_CONFIG = None, tempdirs = [], files = [], Stdout = LoggerOut, token = [],
      nodes = [], execs = []\<rparr>) = None \<and>
   execs (snd (KindSpec_Deploy
     \<lparr>LookPath = (\<lambda>bin. None), MkdirTemp = Inr ''/tmp/kne_kind_docker1'',
      Create = (\<lambda>path. None), command = (\<lambda>past cmd args. (None, [])),
      Duration_String = (\<lambda>d. ''0s'')\<rparr>
     \<lparr>Name = ''kne'', Recycle = True, Version = [], Image = [], Retain = False,
      Wait = 0, Kubecfg = [], GoogleArtifactRegistries = [], ContainerImages = [],
      KindConfigFile = [], AdditionalManifests = [''m.yaml'']\<rparr>
     \<lparr>DOCKER_CONFIG = None, tempdirs = [], files = [], Stdout = LoggerOut, token = [],
      nodes = [], execs = []\<rparr>)) =
     [(''kubectl'', [''cluster-info'', ''--context'', ''kind-kne''])]"
  using KindSpec_Deploy_recycles_existing_cluster
    [of "\<lparr>Name = ''kne'', Recycle = True, Version = [], Image = [], Retain = False,
      Wait = 0, Kubecfg = [], GoogleArtifactRegistries = [], ContainerImages = [],
      KindConfigFile = [], AdditionalManifests = [''m.yaml'']\<rparr>"
     "\<lparr>LookPath = (\<lambda>bin. None), MkdirTemp = Inr ''/tmp/kne_kind_docker1'',
      Create = (\<lambda>path. None), command = (\<lambda>past cmd args. (None, [])),
      Duration_String = (\<lambda>d. ''0s'')\<rparr>"
     "\<lparr>DOCKER_CONFIG = None, tempdirs = [], files = [], Stdout = LoggerOut, token = [],
      nodes = [], execs = []\<rparr>"]
  by (simp add: KindSpec_checkDependencies_def Err_def Let_def)

subsection \<open>What the registry setup leaves behind\<close>

lemma Exec_Stdout: "Exec os cmd args h = (err, h') \<Longrightarrow> Stdout h' = Stdout h"
  by (auto simp: Exec_def split: prod.splits)

lemma login_registries_Stdout:
  "login_registries os tok rs h = (err, h') \<Longrightarrow> Stdout h' = Stdout h"
proof (induction rs arbitrary: h)
  case Nil
  then show ?case by simp
next
  case (Cons r rs)
  then show ?case
    by (auto simp: Let_def split: prod.splits option.splits dest: Exec_Stdout)
qed

lemma configure_nodes_Stdout:
  "configure_nodes os path ns h = (err, h') \<Longrightarrow> Stdout h' = Stdout h"
proof (induction ns arbitrary: h)
  case Nil
  then show ?case by simp
next
  case (Cons n ns)
  then show ?case
    by (auto simp: Let_def split: prod.splits option.splits) (metis Exec_Stdout)+
qed

lemma Setenv_Stdout: "Stdout (snd (Setenv v h)) = Stdout h"
  by (simp add: Setenv_def)

lemma setup_body_success_Stdout:
  "setup_body os k dir h = (None, h') \<Longrightarrow> Stdout h' = LoggerOut"
  by (auto simp: setup_body_def Let_def SetStdout_def split: prod.splits option.splits
      dest!: configure_nodes_Stdout)

lemma setup_success_restores_Stdout:
  "setupGoogleArtifactRegistryAccess os k h = (None, h') \<Longrightarrow> Stdout h' = LoggerOut"
  by (auto simp: setupGoogleArtifactRegistryAccess_def Let_def RemoveAll_def Setenv_Stdout
      split: sum.splits prod.splits dest!: setup_body_success_Stdout)

lemma setup_restores_DOCKER_CONFIG:
  "setupGoogleArtifactRegistryAccess os k h = (err, h') \<Longrightarrow> CHR 0x00 \<notin> set (Getenv h) \<Longrightarrow>
     Getenv h' = Getenv h"
  by (auto simp: setupGoogleArtifactRegistryAccess_def Let_def RemoveAll_def Setenv_def Getenv_def
      split: sum.splits prod.splits)

text \<open>
  C5: the environment variable is restored on every return (\<open>setup_restores_DOCKER_CONFIG\<close>)
  and the standard output is back at the logger when the function succeeds
  (\<open>setup_success_restores_Stdout\<close>), but not on every return: when
  \<open>gcloud auth print-access-token\<close> fails, the function returns its error with the
  execer still writing to the token buffer.
\<close>

theorem setup_error_leaves_Stdout_redirected:
  "setupGoogleArtifactRegistryAccess
     \<lparr>LookPath = (\<lambda>bin. None), MkdirTemp = Inr ''/tmp/kne_kind_docker1'',
      Create = (\<lambda>path. None),
      command = (\<lambda>past cmd args.
        if cmd = ''gcloud'' then (Some (Error ''exit status 1''), []) else (None, [])),
      Duration_String = (\<lambda>d. ''0s'')\<rparr>
     \<lparr>Name = ''kne'', Recycle = False, Version = [], Image = [], Retain = False,
      Wait = 0, Kubecfg = [], GoogleArtifactRegistries = [''us-west1-docker.pkg.dev''],
      ContainerImages = [], KindConfigFile = [], AdditionalManifests = []\<rparr>
     \<lparr>DOCKER_CONFIG = Some ''/home/u/.docker'', tempdirs = [], files = [],
      Stdout = LoggerOut, token = [], nodes = [], execs = []\<rparr> =
   (Some (Error ''exit status 1''),
    \<lparr>DOCKER_CONFIG = Some ''/home/u/.docker'', tempdirs = [], files = [],
     Stdout = TokenBuffer, token = [], nodes = [],
     execs = [(''gcloud'', [''auth'', ''print-access-token''])]\<rparr>)"
  by (simp add: setupGoogleArtifactRegistryAccess_def setup_body_def Setenv_def Getenv_def
      writeDockerConfig_def SetStdout_def Exec_def RemoveAll_def Let_def)

section \<open>The load balancer\<close>

text \<open>
  \<open>MetalLBSpec.Deploy\<close> talks to the cluster through \<open>kClient\<close> and to the container
  runtime through \<open>dClient\<close>. Both are interfaces: what their calls answer is not fixed
  by the repository. The cluster handle is modelled as the objects of the cluster
  together with \<open>fault\<close>, which decides for every call, given the calls made before it,
  whether the call fails whatever the cluster holds (a cancelled context, a refused
  request, a broken connection) and with which error. A call that is not made to fail is
  answered from the objects: \<open>Get\<close> returns an error when no object has the namespace
  and name, \<open>Create\<close> returns an error when one has and stores the object otherwise. A
  call that returns an error leaves the objects as they were. Every call is written to
  \<open>calls\<close>; \<open>creations\<close> are the \<open>Create\<close> calls among them. A secret is kept as its
  \<open>StringData\<close>, a config-map as its \<open>Data\<close>. The runtime client is what its
  \<open>NetworkList\<close> returns.

  The rest of what the function reads from outside is \<open>metallb_env\<close>: the result of
  \<open>dclient.NewClientWithOpts\<close>, the 16 bytes \<open>rand.Read\<close> delivers,
  \<open>base64.StdEncoding.EncodeToString\<close>, \<open>net.ParseCIDR\<close> (of its results only the
  \<open>IPNet\<close> is used), \<open>yaml.Marshal\<close> and \<open>filepath.Join\<close>.

  A call on a \<open>nil\<close> \<open>kClient\<close> panics: the outcome of \<open>Deploy\<close> is \<open>Panic\<close> or what
  it returns, together with the receiver (whose \<open>dClient\<close> is set lazily and whose
  \<open>kClient\<close> holds the cluster after the calls) and the host.
\<close>

datatype kube_call =
    GetSecret string string | CreateSecret string string
  | GetConfigMap string string | CreateConfigMap string string

record kube =
  secrets :: "string \<times> string \<rightharpoonup> (string \<times> string) list"
  configmaps :: "string \<times> string \<rightharpoonup> (string \<times> string) list"
  calls :: "kube_call list"
  fault :: "kube_call list \<Rightarrow> kube_call \<Rightarrow> error option"



definition Secrets_Get ::
  "kube \<Rightarrow> string \<Rightarrow> string \<Rightarrow> (error + (string \<times> string) list) \<times> kube" where
  "Secrets_Get c ns name =
     (let call = GetSecret ns name;
          c' = c\<lparr>calls := calls c @ [call]\<rparr>
      in case fault c (calls c) call of
           Some err \<Rightarrow> (Inl err, c')
         | None \<Rightarrow>
             (case secrets c (ns, name) of
                None \<Rightarrow> (Inl (Error (''secrets '' @ quote name @ '' not found'')), c')
              | Some s \<Rightarrow> (Inr s, c')))"

definition Secrets_Create ::
  "kube \<Rightarrow> string \<Rightarrow> string \<Rightarrow> (string \<times> string) list \<Rightarrow> error option \<times> kube" where
  "Secrets_Create c ns name stringData =
     (let call = CreateSecret ns name;
          c' = c\<lparr>calls := calls c @ [call]\<rparr>
      in case fault c (calls c) call of
           Some err \<Rightarrow> (Some err, c')
         | None \<Rightarrow>
             (case secrets c (ns, name) of
                Some s \<Rightarrow> (Some (Error (''secrets '' @ quote name @ '' already exists'')), c')
              | None \<Rightarrow> (None, c'\<lparr>secrets := (secrets c)((ns, name) \<mapsto> stringData)\<rparr>)))"

definition ConfigMaps_Get ::
  "kube \<Rightarrow> string \<Rightarrow> string \<Rightarrow> (error + (string \<times> string) list) \<times> kube" where
  "ConfigMaps_Get c ns name =
     (let call = GetConfigMap ns name;
          c' = c\<lparr>calls := calls c @ [call]\<rparr>
      in case fault c (calls c) call of
           Some err \<Rightarrow> (Inl err, c')
         | None \<Rightarrow>
             (case configmaps c (ns, name) of
                None \<Rightarrow> (Inl (Error (''configmaps '' @ quote name @ '' not found'')), c')
              | Some s \<Rightarrow> (Inr s, c')))"

definition ConfigMaps_Create ::
  "kube \<Rightarrow> string \<Rightarrow> string \<Rightarrow> (string \<times> string) list \<Rightarrow> error option \<times> kube" where
  "ConfigMaps_Create c ns name data =
     (let call = CreateConfigMap ns name;
          c' = c\<lparr>calls := calls c @ [call]\<rparr>
      in case fault c (calls c) call of
           Some err \<Rightarrow> (Some err, c')
         | None \<Rightarrow>
             (case configmaps c (ns, name) of
                Some s \<Rightarrow> (Some (Error (''configmaps '' @ quote name @ '' already exists'')), c')
              | None \<Rightarrow> (None, c'\<lparr>configmaps := (configmaps c)((ns, name) \<mapsto> data)\<rparr>)))"

record IPAMConfig =
  Subnet :: string

record NetworkResource =
  Name :: string
  IPAM_Config :: "IPAMConfig list"

record docker_client =
  NetworkList :: "error + NetworkResource list"

record IPNet =
  IP :: "byte list"
  Mask :: "byte list"

record MetalLBSpec =
  Version :: string
  IPCount :: int
  ManifestDir :: string
  kClient :: "kube option"
  dClient :: "docker_client option"

record metallb_env =
  NewClientWithOpts :: "error + docker_client"
  rand_Read :: "byte list"
  EncodeToString :: "byte list \<Rightarrow> string"
  ParseCIDR :: "string \<Rightarrow> error + IPNet"
  Marshal :: "metalLBConfig \<Rightarrow> error + string"
  Join :: "string \<Rightarrow> string \<Rightarrow> string"

datatype 'a outcome = Panic | Return 'a

text \<open>
  The two loops of the network discovery: \<open>find_network\<close> starts from the zero
  \<open>NetworkResource\<close> and takes the first network named \<open>kind\<close>; \<open>find_ipv4\<close> returns
  the first subnet whose address is IPv4, \<open>None\<close> for the \<open>nil\<close> pointer, or the error
  of the first subnet before it that does not parse.
\<close>

fun find_network :: "NetworkResource list \<Rightarrow> NetworkResource" where
  "find_network [] = \<lparr>Name = [], IPAM_Config = []\<rparr>"
| "find_network (v # nr) = (if Name v = ''kind'' then v else find_network nr)"

fun find_ipv4 :: "metallb_env \<Rightarrow> IPAMConfig list \<Rightarrow> error + IPNet option" where
  "find_ipv4 env [] = Inr None"
| "find_ipv4 env (ipRange # rest) =
     (case ParseCIDR env (Subnet ipRange) of
        Inl err \<Rightarrow> Inl err
      | Inr ipNet \<Rightarrow> if To4 (IP ipNet) \<noteq> None then Inr (Some ipNet) else find_ipv4 env rest)"

text \<open>
  \<open>ensure_secret\<close> and \<open>ensure_config\<close> are the two presence checks of \<open>Deploy\<close> with
  their creation branches: the branch is taken on any error of \<open>Get\<close>.
\<close>

definition ensure_config ::
  "metallb_env \<Rightarrow> MetalLBSpec \<Rightarrow> docker_client \<Rightarrow> kube \<Rightarrow> error option \<times> kube" where
  "ensure_config env m dc c =
     (case ConfigMaps_Get c ''metallb-system'' ''config'' of
        (Inr found, c) \<Rightarrow> (None, c)
      | (Inl missing, c) \<Rightarrow>
     (case NetworkList dc of
        Inl err \<Rightarrow> (Some err, c)
      | Inr nr \<Rightarrow>
     (let network = find_network nr
      in case find_ipv4 env (IPAM_Config network) of
        Inl err \<Rightarrow> (Some err, c)
      | Inr None \<Rightarrow> (Some (Error ''failed to find kind ipv4 docker net''), c)
      | Inr (Some n) \<Rightarrow>
     (let config = makeConfig (IP n) (IPCount m)
      in case Marshal env config of
        Inl err \<Rightarrow> (Some err, c)
      | Inr b \<Rightarrow> ConfigMaps_Create c ''metallb-system'' ''config'' [(''config'', b)]))))"

definition ensure_secret :: "metallb_env \<Rightarrow> kube \<Rightarrow> error option \<times> kube" where
  "ensure_secret env c =
     (case Secrets_Get c ''metallb-system'' ''memberlist'' of
        (Inr found, c) \<Rightarrow> (None, c)
      | (Inl missing, c) \<Rightarrow>
          (let d = rand_Read env
           in Secrets_Create c ''metallb-system'' ''memberlist''
                [(''secretkey'', EncodeToString env d)]))"

definition MetalLBSpec_Deploy ::
  "metallb_env \<Rightarrow> os_behaviour \<Rightarrow> MetalLBSpec \<Rightarrow> host \<Rightarrow>
     (error option \<times> MetalLBSpec \<times> host) outcome" where
  "MetalLBSpec_Deploy env os m h =
     (case (case dClient m of
              Some dc \<Rightarrow> Inr dc
            | None \<Rightarrow> NewClientWithOpts env) of
        Inl err \<Rightarrow> Return (Some err, m, h)
      | Inr dc \<Rightarrow>
     (let m = m\<lparr>dClient := Some dc\<rparr>
      in case Exec os ''kubectl'' [''apply'', ''-f'', Join env (ManifestDir m) ''namespace.yaml''] h of
        (Some err, h) \<Rightarrow> Return (Some err, m, h)
      | (None, h) \<Rightarrow>
     (case kClient m of
        None \<Rightarrow> Panic
      | Some c \<Rightarrow>
     (case ensure_secret env c of
        (Some err, c) \<Rightarrow> Return (Some err, m\<lparr>kClient := Some c\<rparr>, h)
      | (None, c) \<Rightarrow>
     (case Exec os ''kubectl'' [''apply'', ''-f'', Join env (ManifestDir m) ''metallb.yaml''] h of
        (Some err, h) \<Rightarrow> Return (Some err, m\<lparr>kClient := Some c\<rparr>, h)
      | (None, h) \<Rightarrow>
     (case ensure_config env m dc c of
        (err, c) \<Rightarrow> Return (err, m\<lparr>kClient := Some c\<rparr>, h)))))))"




lemma ensure_secret_result:
  "ensure_secret env c = (err, c') \<Longrightarrow>
     configmaps c' = configmaps c \<and> fault c' = fault c \<and>
     (calls c' = calls c @ [GetSecret ''metallb-system'' ''memberlist''] \<or>
      calls c' = calls c @ [GetSecret ''metallb-system'' ''memberlist'',
                            CreateSecret ''metallb-system'' ''memberlist'']) \<and>
     (err = None \<longrightarrow> secrets c' (''metallb-system'', ''memberlist'') \<noteq> None) \<and>
     (\<forall>key v. secrets c key = Some v \<longrightarrow> secrets c' key = Some v)"
  by (auto simp: ensure_secret_def Secrets_Get_def Secrets_Create_def Let_def
      split: option.splits)




text \<open>A subnet entry that parses and whose address is not IPv4.\<close>

fun not_ipv4 :: "metallb_env \<Rightarrow> IPAMConfig \<Rightarrow> bool" where
  "not_ipv4 env r =
     (case ParseCIDR env (Subnet r) of Inl err \<Rightarrow> False | Inr ipNet \<Rightarrow> To4 (IP ipNet) = None)"

text \<open>
  \<open>Deploy\<close> lists the networks only when it gets that far: the runtime client is there
  or can be made, and its list is \<open>nr\<close>; the first \<open>kubectl apply\<close> succeeds; the
  cluster handle is set and the secret step returns no error; the second
  \<open>kubectl apply\<close> succeeds; and the presence check of the config-map returns an error.
\<close>

definition reaches_network_discovery ::
  "metallb_env \<Rightarrow> os_behaviour \<Rightarrow> MetalLBSpec \<Rightarrow> host \<Rightarrow> NetworkResource list \<Rightarrow> bool" where
  "reaches_network_discovery env os m h nr \<longleftrightarrow>
     (case (case dClient m of Some dc \<Rightarrow> Inr dc | None \<Rightarrow> NewClientWithOpts env) of
        Inl err \<Rightarrow> False
      | Inr dc \<Rightarrow> NetworkList dc = Inr nr) \<and>
     fst (command os (execs h) ''kubectl''
       [''apply'', ''-f'', Join env (ManifestDir m) ''namespace.yaml'']) = None \<and>
     (case kClient m of
        None \<Rightarrow> False
      | Some c \<Rightarrow>
          (case ensure_secret env c of
             (Some err, c) \<Rightarrow> False
           | (None, c) \<Rightarrow>
               fst (command os
                 (execs h @
                  [(''kubectl'', [''apply'', ''-f'', Join env (ManifestDir m) ''namespace.yaml''])])
                 ''kubectl'' [''apply'', ''-f'', Join env (ManifestDir m) ''metallb.yaml'']) = None \<and>
               isl (fst (ConfigMaps_Get c ''metallb-system'' ''config''))))"

lemma find_network_absent:
  "\<forall>v\<in>set nr. Name v \<noteq> ''kind'' \<Longrightarrow> find_network nr = \<lparr>Name = [], IPAM_Config = []\<rparr>"
  by (induction nr) simp_all

lemma find_ipv4_none: "list_all (not_ipv4 env) rs \<Longrightarrow> find_ipv4 env rs = Inr None"
  by (induction rs) (auto split: sum.splits)

lemma find_ipv4_unparseable:
  "list_all (not_ipv4 env) pre \<Longrightarrow> ParseCIDR env (Subnet r) = Inl e \<Longrightarrow>
     find_ipv4 env (pre @ r # rest) = Inl e"
  by (induction pre) (auto split: sum.splits)

lemma ensure_config_discovery_fails:
  assumes "isl (fst (ConfigMaps_Get c ''metallb-system'' ''config''))"
    and "NetworkList dc = Inr nr"
    and "find_ipv4 env (IPAM_Config (find_network nr)) = r"
    and "r = Inr None \<and> e = Error ''failed to find kind ipv4 docker net'' \<or> r = Inl e"
  shows "ensure_config env m dc c =
     (Some e, c\<lparr>calls := calls c @ [GetConfigMap ''metallb-system'' ''config'']\<rparr>)"
  using assms
  by (auto simp: ensure_config_def ConfigMaps_Get_def Let_def split: option.splits)

lemma Deploy_discovery_fails:
  assumes reach: "reaches_network_discovery env os m h nr"
    and r: "find_ipv4 env (IPAM_Config (find_network nr)) = r"
    and e: "r = Inr None \<and> e = Error ''failed to find kind ipv4 docker net'' \<or> r = Inl e"
  shows "\<exists>m' h' c c'. MetalLBSpec_Deploy env os m h = Return (Some e, m', h') \<and>
      kClient m = Some c \<and> kClient m' = Some c' \<and> configmaps c' = configmaps c \<and>
      CreateConfigMap ''metallb-system'' ''config'' \<notin>
        set (drop (length (calls c)) (calls c'))"
proof -
  from reach obtain dc c c1 where
    dc: "(case dClient m of Some dc \<Rightarrow> Inr dc | None \<Rightarrow> NewClientWithOpts env) = Inr dc"
    and nl: "NetworkList dc = Inr nr"
    and e1: "fst (command os (execs h) ''kubectl''
       [''apply'', ''-f'', Join env (ManifestDir m) ''namespace.yaml'']) = None"
    and c: "kClient m = Some c"
    and s: "ensure_secret env c = (None, c1)"
    and e2: "fst (command os
       (execs h @ [(''kubectl'', [''apply'', ''-f'', Join env (ManifestDir m) ''namespace.yaml''])])
       ''kubectl'' [''apply'', ''-f'', Join env (ManifestDir m) ''metallb.yaml'']) = None"
    and miss: "isl (fst (ConfigMaps_Get c1 ''metallb-system'' ''config''))"
    by (auto simp: reaches_network_discovery_def split: sum.splits option.splits prod.splits)
  let ?c2 = "c1\<lparr>calls := calls c1 @ [GetConfigMap ''metallb-system'' ''config'']\<rparr>"
  note rs = ensure_secret_result [OF s]
  have g: "ensure_config env (m\<lparr>dClient := Some dc\<rparr>) dc c1 = (Some e, ?c2)"
    by (rule ensure_config_discovery_fails [OF miss nl r e])
  have "\<exists>h'. MetalLBSpec_Deploy env os m h =
      Return (Some e, m\<lparr>dClient := Some dc, kClient := Some ?c2\<rparr>, h')"
    using dc e1 e2 c s g
    by (auto simp: MetalLBSpec_Deploy_def Let_def Exec_def split: prod.splits option.splits)
  moreover have "CreateConfigMap ''metallb-system'' ''config'' \<notin>
        set (drop (length (calls c)) (calls ?c2))"
    using rs by auto
  moreover have "configmaps ?c2 = configmaps c" using rs by simp
  ultimately show ?thesis using c by auto
qed

subsection \<open>An example cluster\<close>


definition example_ParseCIDR :: "string \<Rightarrow> error + IPNet" where
  "example_ParseCIDR s =
     (if s = ''172.17.0.0/16'' then Inr \<lparr>IP = [172, 17, 0, 0], Mask = [255, 255, 0, 0]\<rparr>
      else if s = ''172.18.0.0/16'' then Inr \<lparr>IP = [172, 18, 0, 0], Mask = [255, 255, 0, 0]\<rparr>
      else if s = ''fc00:f853:ccd:e793::/64''
      then Inr \<lparr>IP = [252, 0, 248, 83, 12, 205, 231, 147, 0, 0, 0, 0, 0, 0, 0, 0],
                 Mask = [255, 255, 255, 255, 255, 255, 255, 255, 0, 0, 0, 0, 0, 0, 0, 0]\<rparr>
      else Inl (Error (''invalid CIDR address: '' @ s)))"

definition example_env :: "NetworkResource list \<Rightarrow> metallb_env" where
  "example_env nr =
     \<lparr>NewClientWithOpts = Inr \<lparr>NetworkList = Inr nr\<rparr>,
      rand_Read = replicate 16 0,
      EncodeToString = (\<lambda>d. ''AAAAAAAAAAAAAAAAAAAAAA==''),
      ParseCIDR = example_ParseCIDR,
      Marshal = (\<lambda>config. Inr (concat (concat (map Addresses (AddressPools config))))),
      Join = (\<lambda>dir file. dir @ ''/'' @ file)\<rparr>"

definition example_os :: os_behaviour where
  "example_os =
     \<lparr>LookPath = (\<lambda>bin. None), MkdirTemp = Inr ''/tmp/kne_kind_docker1'',
      Create = (\<lambda>path. None), command = (\<lambda>past cmd args. (None, [])),
      Duration_String = (\<lambda>d. ''0s'')\<rparr>"

definition example_host :: host where
  "example_host =
     \<lparr>DOCKER_CONFIG = None, tempdirs = [], files = [], Stdout = LoggerOut, token = [],
      nodes = [], execs = []\<rparr>"

definition example_spec :: "kube \<Rightarrow> MetalLBSpec" where
  "example_spec c =
     \<lparr>Version = [], IPCount = 10, ManifestDir = ''manifests/metallb'', kClient = Some c,
      dClient = None\<rparr>"

definition empty_cluster :: kube where
  "empty_cluster =
     \<lparr>secrets = Map.empty, configmaps = Map.empty, calls = [], fault = (\<lambda>past call. None)\<rparr>"








text \<open>
  C10 (as amended): when \<open>Deploy\<close> gets to the network discovery, then: without a
  network named \<open>kind\<close> the network found is the zero value, whose subnet list is empty;
  if no network is named \<open>kind\<close>, or every subnet of the network found parses and none
  is IPv4, \<open>Deploy\<close> returns the error \<open>failed to find kind ipv4 docker net\<close>; if a
  subnet of the network found does not parse and the subnets before it parse and are not
  IPv4, \<open>Deploy\<close> returns the error of \<open>net.ParseCIDR\<close> for that subnet. In both cases
  the config-maps are as before and this \<open>Deploy\<close> made no call to create the
  config-map.
\<close>

theorem MetalLBSpec_Deploy_no_ipv4_subnet:
  "reaches_network_discovery env os m h nr \<Longrightarrow>
     ((\<forall>v\<in>set nr. Name v \<noteq> ''kind'') \<longrightarrow> IPAM_Config (find_network nr) = []) \<and>
     ((\<forall>v\<in>set nr. Name v \<noteq> ''kind'') \<or>
      list_all (not_ipv4 env) (IPAM_Config (find_network nr)) \<longrightarrow>
        (\<exists>m' h' c c'. MetalLBSpec_Deploy env os m h =
             Return (Some (Error ''failed to find kind ipv4 docker net''), m', h') \<and>
           kClient m = Some c \<and> kClient m' = Some c' \<and> configmaps c' = configmaps c \<and>
           CreateConfigMap ''metallb-system'' ''config'' \<notin>
             set (drop (length (calls c)) (calls c')))) \<and>
     (\<forall>pre r rest e.
        IPAM_Config (find_network nr) = pre @ r # rest \<and> list_all (not_ipv4 env) pre \<and>
        ParseCIDR env (Subnet r) = Inl e \<longrightarrow>
        (\<exists>m' h' c c'. MetalLBSpec_Deploy env os m h = Return (Some e, m', h') \<and>
           kClient m = Some c \<and> kClient m' = Some c' \<and> configmaps c' = configmaps c \<and>
           CreateConfigMap ''metallb-system'' ''config'' \<notin>
             set (drop (length (calls c)) (calls c'))))"
proof -
  assume reach: "reaches_network_discovery env os m h nr"
  have absent: "IPAM_Config (find_network nr) = []" if "\<forall>v\<in>set nr. Name v \<noteq> ''kind''"
    using find_network_absent [OF that] by simp
  have none: "\<exists>m' h' c c'. MetalLBSpec_Deploy env os m h =
             Return (Some (Error ''failed to find kind ipv4 docker net''), m', h') \<and>
           kClient m = Some c \<and> kClient m' = Some c' \<and> configmaps c' = configmaps c \<and>
           CreateConfigMap ''metallb-system'' ''config'' \<notin>
             set (drop (length (calls c)) (calls c'))"
    if "(\<forall>v\<in>set nr. Name v \<noteq> ''kind'') \<or>
      list_all (not_ipv4 env) (IPAM_Config (find_network nr))"
  proof -
    have "list_all (not_ipv4 env) (IPAM_Config (find_network nr))"
      using that absent by auto
    then have "find_ipv4 env (IPAM_Config (find_network nr)) = Inr None"
      by (rule find_ipv4_none)
    from Deploy_discovery_fails [OF reach this, of "Error ''failed to find kind ipv4 docker net''"]
    show ?thesis by simp
  qed
  have bad: "\<exists>m' h' c c'. MetalLBSpec_Deploy env os m h = Return (Some e, m', h') \<and>
           kClient m = Some c \<and> kClient m' = Some c' \<and> configmaps c' = configmaps c \<and>
           CreateConfigMap ''metallb-system'' ''config'' \<notin>
             set (drop (length (calls c)) (calls c'))"
    if "IPAM_Config (find_network nr) = pre @ r # rest" "list_all (not_ipv4 env) pre"
      "ParseCIDR env (Subnet r) = Inl e" for pre r rest e
  proof -
    have "find_ipv4 env (IPAM_Config (find_network nr)) = Inl e"
      using find_ipv4_unparseable [OF that(2,3)] that(1) by simp
    from Deploy_discovery_fails [OF reach this, of e] show ?thesis by simp
  qed
  from absent none bad show ?thesis by blast
qed

text \<open>
  Two more runtimes: a \<open>kind\<close> network with an IPv6 subnet only, and one whose second
  subnet does not parse, before an IPv4 one.
\<close>

definition ipv6_only_network :: "NetworkResource list" where
  "ipv6_only_network =
     [\<lparr>Name = ''kind'', IPAM_Config = [\<lparr>Subnet = ''fc00:f853:ccd:e793::/64''\<rparr>]\<rparr>]"

definition unparseable_network :: "NetworkResource list" where
  "unparseable_network =
     [\<lparr>Name = ''kind'',
        IPAM_Config = [\<lparr>Subnet = ''fc00:f853:ccd:e793::/64''\<rparr>, \<lparr>Subnet = ''bogus''\<rparr>,
                       \<lparr>Subnet = ''172.18.0.0/16''\<rparr>]\<rparr>]"

lemma example_reaches:
  "reaches_network_discovery (example_env nr) example_os (example_spec empty_cluster)
     example_host nr"
  by (simp add: reaches_network_discovery_def example_env_def example_os_def
      example_spec_def example_host_def empty_cluster_def ensure_secret_def Secrets_Get_def
      Secrets_Create_def ConfigMaps_Get_def Let_def)

text \<open>
  C10, at the three runtimes: no network at all, the IPv6-only \<open>kind\<close> network, and the
  one with the subnet that does not parse.
\<close>

theorem MetalLBSpec_Deploy_no_ipv4_subnet_witness:
  "reaches_network_discovery (example_env []) example_os (example_spec empty_cluster)
     example_host [] \<and>
   IPAM_Config (find_network []) = [] \<and>
   (\<exists>m' h'. MetalLBSpec_Deploy (example_env []) example_os (example_spec empty_cluster)
        example_host =
      Return (Some (Error ''failed to find kind ipv4 docker net''), m', h')) \<and>
   reaches_network_discovery (example_env ipv6_only_network) example_os
     (example_spec empty_cluster) example_host ipv6_only_network \<and>
   list_all (not_ipv4 (example_env ipv6_only_network))
     (IPAM_Config (find_network ipv6_only_network)) \<and>
   (\<exists>m' h'. MetalLBSpec_Deploy (example_env ipv6_only_network) example_os
        (example_spec empty_cluster) example_host =
      Return (Some (Error ''failed to find kind ipv4 docker net''), m', h')) \<and>
   reaches_network_discovery (example_env unparseable_network) example_os
     (example_spec empty_cluster) example_host unparseable_network \<and>
   IPAM_Config (find_network unparseable_network) =
     [\<lparr>Subnet = ''fc00:f853:ccd:e793::/64''\<rparr>] @ \<lparr>Subnet = ''bogus''\<rparr> #
     [\<lparr>Subnet = ''172.18.0.0/16''\<rparr>] \<and>
   list_all (not_ipv4 (example_env unparseable_network)) [\<lparr>Subnet = ''fc00:f853:ccd:e793::/64''\<rparr>] \<and>
   ParseCIDR (example_env unparseable_network) (Subnet \<lparr>Subnet = ''bogus''\<rparr>) =
     Inl (Error ''invalid CIDR address: bogus'') \<and>
   (\<exists>m' h'. MetalLBSpec_Deploy (example_env unparseable_network) example_os
        (example_spec empty_cluster) example_host =
      Return (Some (Error ''invalid CIDR address: bogus''), m', h'))"
proof -
  note r0 = example_reaches [of "[]"]
  note r1 = example_reaches [of ipv6_only_network]
  note r2 = example_reaches [of unparseable_network]
  have a0: "\<forall>v\<in>set []. Name v \<noteq> ''kind''" by simp
  have a1: "list_all (not_ipv4 (example_env ipv6_only_network))
     (IPAM_Config (find_network ipv6_only_network))"
    by (simp add: ipv6_only_network_def example_env_def example_ParseCIDR_def To4_def)
  have a2: "IPAM_Config (find_network unparseable_network) =
     [\<lparr>Subnet = ''fc00:f853:ccd:e793::/64''\<rparr>] @ \<lparr>Subnet = ''bogus''\<rparr> #
     [\<lparr>Subnet = ''172.18.0.0/16''\<rparr>]"
    "list_all (not_ipv4 (example_env unparseable_network)) [\<lparr>Subnet = ''fc00:f853:ccd:e793::/64''\<rparr>]"
    "ParseCIDR (example_env unparseable_network) (Subnet \<lparr>Subnet = ''bogus''\<rparr>) =
     Inl (Error ''invalid CIDR address: bogus'')"
    by (simp_all add: unparseable_network_def example_env_def example_ParseCIDR_def To4_def)
  from MetalLBSpec_Deploy_no_ipv4_subnet [OF r0] a0
  have d0: "IPAM_Config (find_network []) = []"
    "\<exists>m' h'. MetalLBSpec_Deploy (example_env []) example_os (example_spec empty_cluster)
        example_host =
      Return (Some (Error ''failed to find kind ipv4 docker net''), m', h')"
    by blast+
  from MetalLBSpec_Deploy_no_ipv4_subnet [OF r1] a1
  have d1: "\<exists>m' h'. MetalLBSpec_Deploy (example_env ipv6_only_network) example_os
        (example_spec empty_cluster) example_host =
      Return (Some (Error ''failed to find kind ipv4 docker net''), m', h')"
    by blast
  from MetalLBSpec_Deploy_no_ipv4_subnet [OF r2] a2
  have d2: "\<exists>m' h'. MetalLBSpec_Deploy (example_env unparseable_network) example_os
        (example_spec empty_cluster) example_host =
      Return (Some (Error ''invalid CIDR address: bogus''), m', h')"
    by blast
  from r0 d0 r1 a1 d1 r2 a2 d2 show ?thesis by blast
qed

text \<open>
  The claim as written, for every matching network without an IPv4 subnet entry, fails
  when a subnet does not parse: for the subnet \<open>bogus\<close> \<open>Deploy\<close> returns the error of
  \<open>net.ParseCIDR\<close>, not the discovery error.
\<close>

theorem MetalLBSpec_Deploy_no_ipv4_subnet_counterexample:
  "\<not> (\<forall>env os m h nr.
        reaches_network_discovery env os m h nr \<and>
        ((\<forall>v\<in>set nr. Name v \<noteq> ''kind'') \<or>
         (\<forall>r\<in>set (IPAM_Config (find_network nr)).
            \<not> (\<exists>ipNet. ParseCIDR env (Subnet r) = Inr ipNet \<and> To4 (IP ipNet) \<noteq> None))) \<longrightarrow>
        (\<exists>m' h'. MetalLBSpec_Deploy env os m h =
           Return (Some (Error ''failed to find kind ipv4 docker net''), m', h')))"
proof
  let ?nr = "[\<lparr>Name = ''kind'', IPAM_Config = [\<lparr>Subnet = ''bogus''\<rparr>]\<rparr>]"
  assume "\<forall>env os m h nr.
        reaches_network_discovery env os m h nr \<and>
        ((\<forall>v\<in>set nr. Name v \<noteq> ''kind'') \<or>
         (\<forall>r\<in>set (IPAM_Config (find_network nr)).
            \<not> (\<exists>ipNet. ParseCIDR env (Subnet r) = Inr ipNet \<and> To4 (IP ipNet) \<noteq> None))) \<longrightarrow>
        (\<exists>m' h'. MetalLBSpec_Deploy env os m h =
           Return (Some (Error ''failed to find kind ipv4 docker net''), m', h'))"
  then have claim: "reaches_network_discovery (example_env ?nr) example_os
          (example_spec empty_cluster) example_host ?nr \<and>
        ((\<forall>v\<in>set ?nr. Name v \<noteq> ''kind'') \<or>
         (\<forall>r\<in>set (IPAM_Config (find_network ?nr)).
            \<not> (\<exists>ipNet. ParseCIDR (example_env ?nr) (Subnet r) = Inr ipNet \<and>
                 To4 (IP ipNet) \<noteq> None))) \<longrightarrow>
        (\<exists>m' h'. MetalLBSpec_Deploy (example_env ?nr) example_os (example_spec empty_cluster)
             example_host =
           Return (Some (Error ''failed to find kind ipv4 docker net''), m', h'))"
    by blast
  have "\<forall>r\<in>set (IPAM_Config (find_network ?nr)).
            \<not> (\<exists>ipNet. ParseCIDR (example_env ?nr) (Subnet r) = Inr ipNet \<and>
                 To4 (IP ipNet) \<noteq> None)"
    by (simp add: example_env_def example_ParseCIDR_def)
  with example_reaches [of ?nr] claim
  have "\<exists>m' h'. MetalLBSpec_Deploy (example_env ?nr) example_os
        (example_spec empty_cluster) example_host =
      Return (Some (Error ''failed to find kind ipv4 docker net''), m', h')"
    by blast
  moreover have "\<exists>m' h'. MetalLBSpec_Deploy (example_env ?nr) example_os
        (example_spec empty_cluster) example_host =
      Return (Some (Error ''invalid CIDR address: bogus''), m', h')"
    by (simp add: MetalLBSpec_Deploy_def example_env_def example_os_def example_spec_def
        example_host_def empty_cluster_def example_ParseCIDR_def ensure_secret_def
        ensure_config_def Secrets_Get_def Secrets_Create_def ConfigMaps_Get_def Exec_def
        Let_def)
  ultimately show False by auto
qed

end
